theory Spec2Isabelle
  imports Main "HOL-Library.Sublist"
begin

section \<open>The template migration route: \<^verbatim>\<open>src/app/api/migrate/templates/route.ts\<close>\<close>

text \<open>
  The route exports one handler, \<^verbatim>\<open>POST\<close>. It reads a JSON body, resolves an access
  token for HubSpot and for SFMC, resolves a destination folder, and then either migrates
  the caller's \<^verbatim>\<open>customTemplates\<close> or fetches templates from HubSpot (four endpoints
  tried in turn) and migrates the first \<^verbatim>\<open>limit\<close> of them.

  The handler is embedded as a function of the request body and of its collaborators
  (the imported functions, \<^verbatim>\<open>axios.get\<close> and \<^verbatim>\<open>Date.now\<close>). It returns the
  response together with the list of collaborator calls it made, in order.
\<close>

subsection \<open>JavaScript values\<close>

text \<open>
  Values that arrive as JSON (the custom templates, the HubSpot response bodies, the
  fields of a template) are dynamically typed in the source (\<^verbatim>\<open>any\<close>). Numbers are
  integers here; objects are association lists with distinct keys, in insertion order.
  \<open>JUndefined\<close> is the value of a property that is not there.
\<close>

datatype jsval =
    JUndefined
  | JNull
  | JBool bool
  | JNum int
  | JStr string
  | JArr "jsval list"
  | JObj "(string \<times> jsval) list"

text \<open>JavaScript truthiness, as used by \<^verbatim>\<open>if (x)\<close>, \<^verbatim>\<open>!x\<close>, \<^verbatim>\<open>x && y\<close> and \<^verbatim>\<open>x || y\<close>.\<close>

fun truthy :: "jsval \<Rightarrow> bool" where
  "truthy JUndefined = False"
| "truthy JNull = False"
| "truthy (JBool b) = b"
| "truthy (JNum n) = (n \<noteq> 0)"
| "truthy (JStr s) = (s \<noteq> [])"
| "truthy (JArr xs) = True"
| "truthy (JObj kvs) = True"

text \<open>\<^verbatim>\<open>a || b\<close> on values.\<close>

definition js_or :: "jsval \<Rightarrow> jsval \<Rightarrow> jsval" where
  "js_or a b = (if truthy a then a else b)"

text \<open>An optional string field of the request body is truthy when present and non-empty.\<close>

fun truthy_str :: "string option \<Rightarrow> bool" where
  "truthy_str None = False"
| "truthy_str (Some s) = (s \<noteq> [])"

text \<open>
  A thrown value. \<open>err_message\<close> is what the handlers read from it
  (\<^verbatim>\<open>error instanceof Error ? error.message : String(error)\<close>), \<open>err_response_data\<close> is
  \<^verbatim>\<open>error.response?.data\<close> (\<open>JUndefined\<close> when the error carries no response).
\<close>

datatype js_error = JsError (err_message: string) (err_response_data: jsval)

fun is_nullish :: "jsval \<Rightarrow> bool" where
  "is_nullish JUndefined = True"
| "is_nullish JNull = True"
| "is_nullish v = False"

text \<open>
  Reading property \<open>k\<close> of \<^verbatim>\<open>null\<close> or \<^verbatim>\<open>undefined\<close> throws a \<^verbatim>\<open>TypeError\<close>
  (the message is the one of V8).
\<close>

definition type_error_read :: "jsval \<Rightarrow> string \<Rightarrow> js_error" where
  "type_error_read v k =
     JsError (''Cannot read properties of '' @ (if v = JNull then ''null'' else ''undefined'')
              @ '' (reading '' @ [CHR 0x27] @ k @ [CHR 0x27] @ '')'') JUndefined"

text \<open>
  Reading property \<open>k\<close> of a value that is neither \<^verbatim>\<open>null\<close> nor \<^verbatim>\<open>undefined\<close>. The
  handler reads only the names \<^verbatim>\<open>name\<close>, \<^verbatim>\<open>id\<close>, \<^verbatim>\<open>source\<close>, \<^verbatim>\<open>content\<close>,
  \<^verbatim>\<open>html\<close>, \<^verbatim>\<open>body\<close>, \<^verbatim>\<open>htmlContent\<close>, \<^verbatim>\<open>htmlBody\<close>, \<^verbatim>\<open>design\<close>,
  \<^verbatim>\<open>template\<close>, \<^verbatim>\<open>objects\<close>, \<^verbatim>\<open>results\<close> and \<^verbatim>\<open>length\<close>; of these only
  \<^verbatim>\<open>length\<close> is defined on a string or an array, and none on a number or a boolean.
\<close>

fun get_prop :: "jsval \<Rightarrow> string \<Rightarrow> jsval" where
  "get_prop (JObj kvs) k = (case map_of kvs k of None \<Rightarrow> JUndefined | Some v \<Rightarrow> v)"
| "get_prop (JStr s) k = (if k = ''length'' then JNum (int (length s)) else JUndefined)"
| "get_prop (JArr xs) k = (if k = ''length'' then JNum (int (length xs)) else JUndefined)"
| "get_prop v k = JUndefined"

definition read_prop :: "jsval \<Rightarrow> string \<Rightarrow> js_error + jsval" where
  "read_prop v k = (if is_nullish v then Inl (type_error_read v k) else Inr (get_prop v k))"

text \<open>
  Decimal rendering of a count, of a time value or of an index (all far below \<open>1e21\<close>),
  as a template literal inserts it.
\<close>

fun show_nat :: "nat \<Rightarrow> string" where
  "show_nat n =
     (if n < 10 then [''0123456789'' ! n]
      else show_nat (n div 10) @ [''0123456789'' ! (n mod 10)])"

declare show_nat.simps [simp del]

text \<open>
  \<^verbatim>\<open>String(v)\<close>, which is also what a template literal \<^verbatim>\<open>`${v}`\<close> inserts. It can
  throw: an object is converted by its \<^verbatim>\<open>toString\<close> method, and an object read from
  JSON that has a key \<^verbatim>\<open>toString\<close> of its own hides the inherited method behind a
  value that cannot be called; the inherited \<^verbatim>\<open>valueOf\<close> answers the object itself,
  and the conversion ends in a \<^verbatim>\<open>TypeError\<close>. An array is the join of its elements
  (\<^verbatim>\<open>null\<close> and \<^verbatim>\<open>undefined\<close> as the empty string), converted from left to right,
  and throws when one of them does.

  The rendering of a number (the shortest decimal that reads back as the same double,
  with an exponent from \<open>1e21\<close> on) is the parameter \<open>number\<close>, so that whatever
  is proved holds for every rendering of numbers.
\<close>

definition cannot_convert :: js_error where
  "cannot_convert = JsError ''Cannot convert object to primitive value'' JUndefined"

fun join_rendered :: "(js_error + string) list \<Rightarrow> js_error + string" where
  "join_rendered [] = Inr []"
| "join_rendered [r] = r"
| "join_rendered (Inl e # r # rs) = Inl e"
| "join_rendered (Inr s # r # rs) =
     (case join_rendered (r # rs) of Inl e \<Rightarrow> Inl e | Inr t \<Rightarrow> Inr (s @ '','' @ t))"

fun to_string :: "(int \<Rightarrow> string) \<Rightarrow> jsval \<Rightarrow> js_error + string" where
  "to_string number JUndefined = Inr ''undefined''"
| "to_string number JNull = Inr ''null''"
| "to_string number (JBool b) = Inr (if b then ''true'' else ''false'')"
| "to_string number (JNum n) = Inr (number n)"
| "to_string number (JStr s) = Inr s"
| "to_string number (JArr xs) =
     join_rendered (map (\<lambda>x. if is_nullish x then Inr [] else to_string number x) xs)"
| "to_string number (JObj kvs) =
     (if map_of kvs ''toString'' = None then Inr ''[object Object]'' else Inl cannot_convert)"

text \<open>
  Object spread \<^verbatim>\<open>{...v}\<close>: the own enumerable properties of \<open>v\<close>. A string and an
  array spread their elements under the keys \<^verbatim>\<open>0\<close>, \<^verbatim>\<open>1\<close>, ...; other primitives
  spread nothing.
\<close>

fun spread :: "jsval \<Rightarrow> (string \<times> jsval) list" where
  "spread (JObj kvs) = kvs"
| "spread (JStr s) = zip (map show_nat [0..<length s]) (map (\<lambda>c. JStr [c]) s)"
| "spread (JArr xs) = zip (map show_nat [0..<length xs]) xs"
| "spread v = []"

text \<open>Setting a key of an object literal: an existing key keeps its place, a new one goes last.\<close>

fun obj_set :: "(string \<times> jsval) list \<Rightarrow> string \<Rightarrow> jsval \<Rightarrow> (string \<times> jsval) list" where
  "obj_set [] k v = [(k, v)]"
| "obj_set ((k', v') # kvs) k v = (if k' = k then (k, v) # kvs else (k', v') # obj_set kvs k v)"

text \<open>\<^verbatim>\<open>{ ...template, source: src }\<close>, the argument of \<^verbatim>\<open>convertHubspotTemplate\<close>.\<close>

definition with_source :: "jsval \<Rightarrow> jsval \<Rightarrow> jsval" where
  "with_source template src = JObj (obj_set (spread template) ''source'' src)"

text \<open>
  \<^verbatim>\<open>xs.slice(0, end)\<close> on an array or a string: a negative end counts from the
  end of the list.
\<close>

definition slice0 :: "'a list \<Rightarrow> int \<Rightarrow> 'a list" where
  "slice0 xs e =
     (let len = int (length xs);
          final = (if e < 0 then max (len + e) 0 else min e len)
      in take (nat final) xs)"

text \<open>\<^verbatim>\<open>s.includes('<')\<close>.\<close>

definition includes_lt :: "string \<Rightarrow> bool" where
  "includes_lt s = (CHR ''<'' \<in> set s)"

subsection \<open>The request body\<close>

text \<open>
  \<^verbatim>\<open>const { userId, hubspotToken, sfmcCredentials, limit = 10, folderId, customTemplates } = body\<close>.
  The scalar fields have the types of the interface (strings, an integer); \<open>None\<close> is
  an absent field. \<^verbatim>\<open>customTemplates\<close> is kept as a JSON value, since the handler
  tests at run time whether it is an array.
\<close>

record sfmc_credentials =
  clientId :: "string option"
  clientSecret :: "string option"
  subdomain :: "string option"

record request_body =
  userId :: "string option"
  hubspotToken :: "string option"
  sfmcCredentials :: "sfmc_credentials option"
  limit :: "int option"
  folderId :: "string option"
  customTemplates :: jsval

subsection \<open>The collaborators\<close>

text \<open>
  The object every SFMC call receives:
  \<^verbatim>\<open>{ clientId: sfmcCredentials?.clientId, clientSecret: sfmcCredentials?.clientSecret,
     subdomain: sfmcCredentials?.subdomain, accessToken: sfmcAccessToken }\<close>.
\<close>

record sfmc_options = sfmc_credentials +
  accessToken :: string

text \<open>Identifiers of folders are primitive values; \<^verbatim>\<open>===\<close> on them is equality.\<close>

datatype js_id = NumId int | StrId string

record sfmc_folder =
  folder_id :: js_id
  folder_name :: string
  parentId :: "js_id option"

record converted_template =
  content :: jsval
  channels :: jsval
  slots :: jsval

record asset_type =
  type_name :: string
  type_id :: int

record asset_metadata =
  meta_channels :: jsval
  meta_slots :: jsval
  assetType :: asset_type

record created_asset =
  asset_id :: jsval
  customerKey :: jsval

text \<open>One collaborator call, with its arguments.\<close>

datatype call =
    Call_getIntegrationTokens string string
  | Call_getSFMCToken string string string
  | Call_getSFMCFolders sfmc_options
  | Call_createSFMCFolder sfmc_options string js_id
  | Call_createHubspotClient string
  | Call_axios_get string string
  | Call_convertHubspotTemplate jsval
  | Call_createEmailTemplate sfmc_options jsval jsval js_id asset_metadata
  | Call_Date_now

text \<open>
  The collaborators are parameters of the handler. Each one receives the calls made so
  far, so its answer may depend on everything that happened before it (a store, a
  network, a clock), and answers with a thrown error (\<open>Inl\<close>) or a value (\<open>Inr\<close>).
  \<^item> \<open>getIntegrationTokens\<close> answers \<open>None\<close> for no stored record, else the record's
    \<^verbatim>\<open>accessToken\<close>;
  \<^item> \<open>getSFMCToken\<close> answers the \<^verbatim>\<open>accessToken\<close> of the token response;
  \<^item> \<open>getSFMCFolders\<close> answers the \<^verbatim>\<open>items\<close> of the folder listing;
  \<^item> \<open>axios_get\<close> takes the URL and the bearer token and answers \<^verbatim>\<open>response.data\<close>;
    it throws on a non-2xx status or a network error;
  \<^item> \<open>Number_toString\<close> is how the engine renders a number as a string; it calls
    nothing and depends on nothing.
\<close>

record collaborators =
  getIntegrationTokens :: "call list \<Rightarrow> string \<Rightarrow> string \<Rightarrow> js_error + string option"
  getSFMCToken :: "call list \<Rightarrow> string \<Rightarrow> string \<Rightarrow> string \<Rightarrow> js_error + string"
  getSFMCFolders :: "call list \<Rightarrow> sfmc_options \<Rightarrow> js_error + sfmc_folder list"
  createSFMCFolder :: "call list \<Rightarrow> sfmc_options \<Rightarrow> string \<Rightarrow> js_id \<Rightarrow> js_error + sfmc_folder"
  createHubspotClient :: "call list \<Rightarrow> string \<Rightarrow> js_error + unit"
  axios_get :: "call list \<Rightarrow> string \<Rightarrow> string \<Rightarrow> js_error + jsval"
  convertHubspotTemplate :: "call list \<Rightarrow> jsval \<Rightarrow> js_error + converted_template"
  createEmailTemplate ::
    "call list \<Rightarrow> sfmc_options \<Rightarrow> jsval \<Rightarrow> jsval \<Rightarrow> js_id \<Rightarrow> asset_metadata
      \<Rightarrow> js_error + created_asset"
  Date_now :: "call list \<Rightarrow> nat"
  Number_toString :: "int \<Rightarrow> string"

subsection \<open>Responses\<close>

text \<open>
  An entry of \<^verbatim>\<open>migrated\<close>: \<^verbatim>\<open>{customId, customName, sfmcId, sfmcCustomerKey, status}\<close>
  in custom mode, \<^verbatim>\<open>{hubspotId, hubspotName, sfmcId, sfmcCustomerKey, status}\<close> in
  fetch mode.
\<close>

datatype migration_result =
    CustomResult jsval jsval jsval jsval string
  | HubspotResult jsval jsval jsval jsval string

text \<open>
  An entry of \<^verbatim>\<open>errors\<close>: \<^verbatim>\<open>{customId, customName, error, status}\<close> in custom mode,
  \<^verbatim>\<open>{hubspotId, hubspotName, error, status}\<close> in fetch mode.
\<close>

datatype migration_error =
    CustomError jsval jsval string string
  | HubspotError jsval jsval string string

text \<open>
  \<open>ErrorResponse status error details\<close> is \<^verbatim>\<open>NextResponse.json({error, details}, {status})\<close>
  (\<open>details = JUndefined\<close> when the key is not there).
  \<open>Summary message migrated errors templatesCount totalAttempted\<close> is
  \<^verbatim>\<open>NextResponse.json({success: true, message, migrated, errors, templatesCount, totalAttempted})\<close>,
  with the default status 200; \<open>errors\<close> and \<open>totalAttempted\<close> are \<open>None\<close> when
  \<^verbatim>\<open>undefined\<close>.
\<close>

datatype response =
    ErrorResponse nat string jsval
  | Summary string "migration_result list" "migration_error list option" nat "nat option"

fun http_status :: "response \<Rightarrow> nat" where
  "http_status (ErrorResponse st err det) = st"
| "http_status (Summary msg mig errs tc ta) = 200"

subsection \<open>Resolving the credentials (lines 23 to 94)\<close>

text \<open>
  Each phase returns \<open>Inl\<close> of the response of an early \<^verbatim>\<open>return\<close>, or \<open>Inr\<close> of
  the value it resolved, and the calls made so far.
\<close>

definition hubspot_token_from_store ::
  "collaborators \<Rightarrow> string \<Rightarrow> call list \<Rightarrow> (response + string) \<times> call list" where
  "hubspot_token_from_store env uid log =
     (case getIntegrationTokens env log uid ''hubspot'' of
        Inr None \<Rightarrow>
          (Inl (ErrorResponse 400 ''Missing HubSpot token. Please reconnect to HubSpot.'' JUndefined),
           log @ [Call_getIntegrationTokens uid ''hubspot''])
      | Inr (Some t) \<Rightarrow> (Inr t, log @ [Call_getIntegrationTokens uid ''hubspot''])
      | Inl e \<Rightarrow>
          (Inl (ErrorResponse 500 ''Database error retrieving HubSpot tokens.'' JUndefined),
           log @ [Call_getIntegrationTokens uid ''hubspot'']))"

definition resolve_hubspot_token ::
  "collaborators \<Rightarrow> request_body \<Rightarrow> string \<Rightarrow> call list \<Rightarrow> (response + string) \<times> call list" where
  "resolve_hubspot_token env body uid log =
     (case hubspotToken body of
        Some t \<Rightarrow> if t \<noteq> [] then (Inr t, log) else hubspot_token_from_store env uid log
      | None \<Rightarrow> hubspot_token_from_store env uid log)"

text \<open>
  \<^verbatim>\<open>sfmcCredentials && sfmcCredentials.clientId && sfmcCredentials.clientSecret && sfmcCredentials.subdomain\<close>:
  the three strings when all are there and non-empty.
\<close>

fun direct_credentials :: "sfmc_credentials option \<Rightarrow> (string \<times> string \<times> string) option" where
  "direct_credentials None = None"
| "direct_credentials (Some c) =
     (case (clientId c, clientSecret c, subdomain c) of
        (Some i, Some s, Some d) \<Rightarrow> if i \<noteq> [] \<and> s \<noteq> [] \<and> d \<noteq> [] then Some (i, s, d) else None
      | _ \<Rightarrow> None)"

definition resolve_sfmc_token ::
  "collaborators \<Rightarrow> request_body \<Rightarrow> string \<Rightarrow> call list \<Rightarrow> (response + string) \<times> call list" where
  "resolve_sfmc_token env body uid log =
     (case direct_credentials (sfmcCredentials body) of
        Some (i, s, d) \<Rightarrow>
          (case getSFMCToken env log i s d of
             Inr t \<Rightarrow> (Inr t, log @ [Call_getSFMCToken i s d])
           | Inl e \<Rightarrow>
               (Inl (ErrorResponse 400
                       ''Failed to authenticate with SFMC using provided credentials.'' JUndefined),
                log @ [Call_getSFMCToken i s d]))
      | None \<Rightarrow>
          (case getIntegrationTokens env log uid ''sfmc'' of
             Inr None \<Rightarrow>
               (Inl (ErrorResponse 400 ''Missing SFMC credentials. Please connect SFMC.'' JUndefined),
                log @ [Call_getIntegrationTokens uid ''sfmc''])
           | Inr (Some t) \<Rightarrow> (Inr t, log @ [Call_getIntegrationTokens uid ''sfmc''])
           | Inl e \<Rightarrow>
               (Inl (ErrorResponse 400 ''No SFMC credentials provided or found in database.'' JUndefined),
                log @ [Call_getIntegrationTokens uid ''sfmc''])))"

definition sfmc_opts :: "request_body \<Rightarrow> string \<Rightarrow> sfmc_options" where
  "sfmc_opts body sfmcAccessToken =
     \<lparr> clientId = (case sfmcCredentials body of None \<Rightarrow> None | Some c \<Rightarrow> clientId c),
       clientSecret = (case sfmcCredentials body of None \<Rightarrow> None | Some c \<Rightarrow> clientSecret c),
       subdomain = (case sfmcCredentials body of None \<Rightarrow> None | Some c \<Rightarrow> subdomain c),
       accessToken = sfmcAccessToken \<rparr>"

subsection \<open>Resolving the destination folder (lines 96 to 150)\<close>

definition folder_failed :: response where
  "folder_failed =
     ErrorResponse 400
       ''Failed to find or create a folder in SFMC. Please provide a valid folderId.'' JUndefined"

definition find_or_create_folder ::
  "collaborators \<Rightarrow> sfmc_options \<Rightarrow> call list \<Rightarrow> (response + js_id) \<times> call list" where
  "find_or_create_folder env opts log =
     (case getSFMCFolders env log opts of
        Inl e \<Rightarrow> (Inl folder_failed, log @ [Call_getSFMCFolders opts])
      | Inr items \<Rightarrow>
          (case find (\<lambda>folder. folder_name folder = ''Content Builder'') items of
             None \<Rightarrow> (Inl folder_failed, log @ [Call_getSFMCFolders opts])
           | Some contentBuilderFolder \<Rightarrow>
               (case find (\<lambda>folder. folder_name folder = ''HubSpot Templates''
                                  \<and> parentId folder = Some (folder_id contentBuilderFolder)) items of
                  Some hubspotFolder \<Rightarrow>
                    (Inr (folder_id hubspotFolder), log @ [Call_getSFMCFolders opts])
                | None \<Rightarrow>
                    (case createSFMCFolder env (log @ [Call_getSFMCFolders opts]) opts
                            ''HubSpot Templates'' (folder_id contentBuilderFolder) of
                       Inl e \<Rightarrow>
                         (Inl folder_failed,
                          log @ [Call_getSFMCFolders opts,
                                 Call_createSFMCFolder opts ''HubSpot Templates''
                                   (folder_id contentBuilderFolder)])
                     | Inr newFolder \<Rightarrow>
                         (Inr (folder_id newFolder),
                          log @ [Call_getSFMCFolders opts,
                                 Call_createSFMCFolder opts ''HubSpot Templates''
                                   (folder_id contentBuilderFolder)])))))"

definition resolve_folder ::
  "collaborators \<Rightarrow> request_body \<Rightarrow> sfmc_options \<Rightarrow> call list \<Rightarrow> (response + js_id) \<times> call list" where
  "resolve_folder env body opts log =
     (case folderId body of
        Some f \<Rightarrow> if f \<noteq> [] then (Inr (StrId f), log) else find_or_create_folder env opts log
      | None \<Rightarrow> find_or_create_folder env opts log)"

subsection \<open>Migrating one template\<close>

text \<open>The fourth argument of \<^verbatim>\<open>createEmailTemplate\<close>.\<close>

definition template_metadata :: "converted_template \<Rightarrow> asset_metadata" where
  "template_metadata convertedTemplate =
     \<lparr> meta_channels = channels convertedTemplate,
       meta_slots = slots convertedTemplate,
       assetType = \<lparr> type_name = ''template'', type_id = 4 \<rparr> \<rparr>"

text \<open>
  \<^verbatim>\<open>convertHubspotTemplate({...template, source})\<close> followed by \<^verbatim>\<open>createEmailTemplate\<close>,
  as both loops do it: \<open>Inl\<close> is the error either of them threw.
\<close>

definition convert_and_create ::
  "collaborators \<Rightarrow> sfmc_options \<Rightarrow> js_id \<Rightarrow> jsval \<Rightarrow> jsval \<Rightarrow> call list
    \<Rightarrow> (js_error + created_asset) \<times> call list" where
  "convert_and_create env opts contentBuilderFolderId template src log =
     (case convertHubspotTemplate env log (with_source template src) of
        Inl e \<Rightarrow> (Inl e, log @ [Call_convertHubspotTemplate (with_source template src)])
      | Inr convertedTemplate \<Rightarrow>
          (case createEmailTemplate env
                  (log @ [Call_convertHubspotTemplate (with_source template src)]) opts
                  (get_prop template ''name'') (content convertedTemplate)
                  contentBuilderFolderId (template_metadata convertedTemplate) of
             Inl e \<Rightarrow>
               (Inl e,
                log @ [Call_convertHubspotTemplate (with_source template src),
                       Call_createEmailTemplate opts (get_prop template ''name'')
                         (content convertedTemplate) contentBuilderFolderId
                         (template_metadata convertedTemplate)])
           | Inr result \<Rightarrow>
               (Inr result,
                log @ [Call_convertHubspotTemplate (with_source template src),
                       Call_createEmailTemplate opts (get_prop template ''name'')
                         (content convertedTemplate) contentBuilderFolderId
                         (template_metadata convertedTemplate)])))"

subsection \<open>Custom mode (lines 152 to 216)\<close>

text \<open>
  \<^verbatim>\<open>`${template.name}`\<close>: reading the name throws for a \<^verbatim>\<open>null\<close> item, converting it
  to a string throws for a name that cannot be converted.
\<close>

definition template_name_text :: "collaborators \<Rightarrow> jsval \<Rightarrow> js_error + string" where
  "template_name_text env template =
     (case read_prop template ''name'' of
        Inl e \<Rightarrow> Inl e
      | Inr v \<Rightarrow> to_string (Number_toString env) v)"

text \<open>
  \<^verbatim>\<open>template.content || template.html || `<p>Template: ${template.name}</p>`\<close>, where
  \<open>name_text\<close> is the name already rendered by the first statement of the loop body.
\<close>

definition custom_source :: "jsval \<Rightarrow> string \<Rightarrow> jsval" where
  "custom_source template name_text =
     js_or (js_or (get_prop template ''content'') (get_prop template ''html''))
           (JStr (''<p>Template: '' @ name_text @ ''</p>''))"

text \<open>\<^verbatim>\<open>template.id || `custom-${Date.now()}`\<close>: the clock is read only when the id is falsy.\<close>

definition custom_id :: "collaborators \<Rightarrow> jsval \<Rightarrow> call list \<Rightarrow> jsval \<times> call list" where
  "custom_id env template log =
     (if truthy (get_prop template ''id'') then (get_prop template ''id'', log)
      else (JStr (''custom-'' @ show_nat (Date_now env log)), log @ [Call_Date_now]))"

text \<open>
  One turn of the loop, on \<open>(results, errors, log)\<close>. The first statement of the
  \<^verbatim>\<open>try\<close> block (line 163) renders \<^verbatim>\<open>`${template.name}`\<close>. When that throws (the
  item is \<^verbatim>\<open>null\<close>, or its name cannot be converted to a string), the \<^verbatim>\<open>catch\<close>
  block, whose first statement (line 197) renders \<^verbatim>\<open>`${template.name}`\<close> too,
  throws the same error again, out of the loop (\<open>Inl\<close>). Otherwise nothing but the
  conversion and the creation can throw, and the \<^verbatim>\<open>catch\<close> block records what they
  threw.
\<close>

definition custom_step ::
  "collaborators \<Rightarrow> sfmc_options \<Rightarrow> js_id \<Rightarrow> jsval
    \<Rightarrow> migration_result list \<times> migration_error list \<times> call list
    \<Rightarrow> js_error \<times> call list + migration_result list \<times> migration_error list \<times> call list" where
  "custom_step env opts contentBuilderFolderId template acc =
     (case acc of (results, errors, log) \<Rightarrow>
        (case template_name_text env template of
           Inl thrown \<Rightarrow> Inl (thrown, log)
         | Inr name_text \<Rightarrow>
             (case convert_and_create env opts contentBuilderFolderId template
                     (custom_source template name_text) log of
                (Inr result, log1) \<Rightarrow>
                  (case custom_id env template log1 of
                     (cid, log2) \<Rightarrow>
                       Inr (results @ [CustomResult cid (get_prop template ''name'')
                                         (asset_id result) (customerKey result) ''success''],
                            errors, log2))
              | (Inl error, log1) \<Rightarrow>
                  (case custom_id env template log1 of
                     (cid, log2) \<Rightarrow>
                       Inr (results,
                            errors @ [CustomError cid (get_prop template ''name'')
                                        (err_message error) ''error''],
                            log2)))))"

fun custom_loop ::
  "collaborators \<Rightarrow> sfmc_options \<Rightarrow> js_id \<Rightarrow> jsval list
    \<Rightarrow> migration_result list \<times> migration_error list \<times> call list
    \<Rightarrow> js_error \<times> call list + migration_result list \<times> migration_error list \<times> call list" where
  "custom_loop env opts fid [] acc = Inr acc"
| "custom_loop env opts fid (template # rest) acc =
     (case custom_step env opts fid template acc of
        Inl abort \<Rightarrow> Inl abort
      | Inr acc' \<Rightarrow> custom_loop env opts fid rest acc')"

text \<open>\<^verbatim>\<open>errors.length > 0 ? errors : undefined\<close>.\<close>

definition errors_or_undefined :: "migration_error list \<Rightarrow> migration_error list option" where
  "errors_or_undefined errors = (if length errors > 0 then Some errors else None)"

definition summary_message :: "string \<Rightarrow> nat \<Rightarrow> nat \<Rightarrow> string" where
  "summary_message what n_results n_errors =
     ''Migrated '' @ show_nat n_results @ '' '' @ what @ '' successfully''
       @ (if n_errors > 0 then '', with '' @ show_nat n_errors @ '' errors'' else [])"

text \<open>The \<^verbatim>\<open>catch\<close> of the whole handler (lines 422 to 427).\<close>

definition migration_failed :: "js_error \<Rightarrow> response" where
  "migration_failed error =
     ErrorResponse 500 ''Failed to migrate email templates'' (JStr (err_message error))"

definition custom_mode ::
  "collaborators \<Rightarrow> sfmc_options \<Rightarrow> js_id \<Rightarrow> jsval list \<Rightarrow> call list \<Rightarrow> response \<times> call list" where
  "custom_mode env opts contentBuilderFolderId templates log =
     (case custom_loop env opts contentBuilderFolderId templates ([], [], log) of
        Inl (error, log') \<Rightarrow> (migration_failed error, log')
      | Inr (results, errors, log') \<Rightarrow>
          (Summary (summary_message ''custom templates'' (length results) (length errors))
                   results (errors_or_undefined errors) (length results)
                   (Some (length templates)),
           log'))"

subsection \<open>Fetching the templates from HubSpot (lines 218 to 312)\<close>

definition cms_url :: string where
  "cms_url = ''https://api.hubapi.com/content/api/v2/templates''"

definition v3_url :: string where
  "v3_url = ''https://api.hubapi.com/marketing/v3/marketing-emails/templates''"

definition v1_url :: string where
  "v1_url = ''https://api.hubapi.com/marketing-emails/v1/templates''"

definition public_url :: string where
  "public_url = ''https://api.hubapi.com/email/public/v1/templates''"

text \<open>\<^verbatim>\<open>response.data.objects || []\<close> and \<^verbatim>\<open>response.data.results || []\<close>.\<close>

definition data_field :: "string \<Rightarrow> jsval \<Rightarrow> js_error + jsval" where
  "data_field k data =
     (case read_prop data k of Inl e \<Rightarrow> Inl e | Inr v \<Rightarrow> Inr (js_or v (JArr [])))"

text \<open>\<^verbatim>\<open>response.data || []\<close>.\<close>

definition data_itself :: "jsval \<Rightarrow> js_error + jsval" where
  "data_itself data = Inr (js_or data (JArr []))"

text \<open>
  The body of one \<^verbatim>\<open>try\<close> block of the chain: the request, then the reading of the
  templates out of the response. \<open>Inl\<close> is what the block threw.
\<close>

definition try_endpoint ::
  "collaborators \<Rightarrow> string \<Rightarrow> (jsval \<Rightarrow> js_error + jsval) \<Rightarrow> string \<Rightarrow> call list
    \<Rightarrow> (js_error + jsval) \<times> call list" where
  "try_endpoint env url extract hubspotAccessToken log =
     ((case axios_get env log url hubspotAccessToken of
         Inl e \<Rightarrow> Inl e
       | Inr data \<Rightarrow> extract data),
      log @ [Call_axios_get url hubspotAccessToken])"

text \<open>The nested \<^verbatim>\<open>try\<close> blocks of lines 227 to 285.\<close>

definition fetch_templates ::
  "collaborators \<Rightarrow> string \<Rightarrow> call list \<Rightarrow> (js_error + jsval) \<times> call list" where
  "fetch_templates env hubspotAccessToken log =
     (case try_endpoint env cms_url (data_field ''objects'') hubspotAccessToken log of
        (Inr hubspotTemplates, log1) \<Rightarrow> (Inr hubspotTemplates, log1)
      | (Inl cmsError, log1) \<Rightarrow>
          (case try_endpoint env v3_url (data_field ''results'') hubspotAccessToken log1 of
             (Inr hubspotTemplates, log2) \<Rightarrow> (Inr hubspotTemplates, log2)
           | (Inl v3Error, log2) \<Rightarrow>
               (case try_endpoint env v1_url data_itself hubspotAccessToken log2 of
                  (Inr hubspotTemplates, log3) \<Rightarrow> (Inr hubspotTemplates, log3)
                | (Inl v1Error, log3) \<Rightarrow>
                    try_endpoint env public_url (data_field ''objects'') hubspotAccessToken log3)))"

text \<open>The \<^verbatim>\<open>catch\<close> of lines 286 to 302: \<^verbatim>\<open>details: error.response?.data || error.message\<close>.\<close>

definition fetch_failed_message :: string where
  "fetch_failed_message =
     ''Failed to fetch templates from HubSpot API. Please check your token and permissions.''"

definition fetch_failed :: "js_error \<Rightarrow> response" where
  "fetch_failed error =
     ErrorResponse 500 fetch_failed_message
       (js_or (err_response_data error) (JStr (err_message error)))"

definition no_templates :: response where
  "no_templates = Summary ''No email templates found in HubSpot'' [] None 0 None"

subsection \<open>Fetch mode: the loop (lines 314 to 420)\<close>

text \<open>
  \<^verbatim>\<open>emailTemplates.slice(0, limit)\<close>, as the list of items the \<^verbatim>\<open>for ... of\<close> loop
  visits. An array gives its elements and a string its characters; any other value has no
  \<^verbatim>\<open>slice\<close> method, and the call throws.
\<close>

fun slice_items :: "jsval \<Rightarrow> int \<Rightarrow> js_error + jsval list" where
  "slice_items (JArr xs) n = Inr (slice0 xs n)"
| "slice_items (JStr s) n = Inr (map (\<lambda>c. JStr [c]) (slice0 s n))"
| "slice_items v n = Inl (JsError ''emailTemplates.slice is not a function'' JUndefined)"

text \<open>
  \<^verbatim>\<open>template[prop] && typeof template[prop] === 'string' && template[prop].includes('<')\<close>.
\<close>

fun looks_like_html :: "jsval \<Rightarrow> bool" where
  "looks_like_html (JStr s) = (truthy (JStr s) \<and> includes_lt s)"
| "looks_like_html v = False"

definition possibleContentProperties :: "string list" where
  "possibleContentProperties = [''body'', ''htmlContent'', ''htmlBody'', ''design'', ''template'']"

text \<open>The inner loop of lines 355 to 361, from \<^verbatim>\<open>templateContent = ''\<close>.\<close>

fun scan_properties :: "jsval \<Rightarrow> string list \<Rightarrow> jsval" where
  "scan_properties template [] = JStr []"
| "scan_properties template (p # ps) =
     (if looks_like_html (get_prop template p) then get_prop template p
      else scan_properties template ps)"

text \<open>Lines 334 to 362: the value of \<^verbatim>\<open>templateContent\<close>.\<close>

definition templateContent :: "jsval \<Rightarrow> jsval" where
  "templateContent template =
     (if truthy (get_prop template ''source'') then get_prop template ''source''
      else if truthy (get_prop template ''content'') then get_prop template ''content''
      else if truthy (get_prop template ''html'') then get_prop template ''html''
      else scan_properties template possibleContentProperties)"

text \<open>
  One turn of the loop. As in custom mode, a \<^verbatim>\<open>null\<close> item throws in the \<^verbatim>\<open>try\<close>
  block and again in the \<^verbatim>\<open>catch\<close> block. A template without content is skipped
  (\<^verbatim>\<open>continue\<close>): nothing is pushed and nothing is called. The items of this loop are
  what HubSpot answered: their \<^verbatim>\<open>name\<close> and \<^verbatim>\<open>id\<close>, which lines 331 and 402
  render, are taken to be strings or numbers, whose rendering does not throw.
\<close>

definition hubspot_step ::
  "collaborators \<Rightarrow> sfmc_options \<Rightarrow> js_id \<Rightarrow> jsval
    \<Rightarrow> migration_result list \<times> migration_error list \<times> call list
    \<Rightarrow> js_error \<times> call list + migration_result list \<times> migration_error list \<times> call list" where
  "hubspot_step env opts contentBuilderFolderId template acc =
     (case acc of (results, errors, log) \<Rightarrow>
        if is_nullish template then Inl (type_error_read template ''name'', log)
        else if \<not> truthy (templateContent template) then Inr (results, errors, log)
        else
          (case convert_and_create env opts contentBuilderFolderId template
                  (templateContent template) log of
             (Inr result, log1) \<Rightarrow>
               Inr (results @ [HubspotResult (get_prop template ''id'') (get_prop template ''name'')
                                 (asset_id result) (customerKey result) ''success''],
                    errors, log1)
           | (Inl error, log1) \<Rightarrow>
               Inr (results,
                    errors @ [HubspotError (get_prop template ''id'') (get_prop template ''name'')
                                (err_message error) ''error''],
                    log1)))"

fun hubspot_loop ::
  "collaborators \<Rightarrow> sfmc_options \<Rightarrow> js_id \<Rightarrow> jsval list
    \<Rightarrow> migration_result list \<times> migration_error list \<times> call list
    \<Rightarrow> js_error \<times> call list + migration_result list \<times> migration_error list \<times> call list" where
  "hubspot_loop env opts fid [] acc = Inr acc"
| "hubspot_loop env opts fid (template # rest) acc =
     (case hubspot_step env opts fid template acc of
        Inl abort \<Rightarrow> Inl abort
      | Inr acc' \<Rightarrow> hubspot_loop env opts fid rest acc')"

text \<open>Lines 304 to 420, from the fetched \<^verbatim>\<open>hubspotTemplates\<close>.\<close>

definition migrate_fetched ::
  "collaborators \<Rightarrow> sfmc_options \<Rightarrow> js_id \<Rightarrow> int \<Rightarrow> jsval \<Rightarrow> call list \<Rightarrow> response \<times> call list" where
  "migrate_fetched env opts contentBuilderFolderId lim hubspotTemplates log =
     (if get_prop hubspotTemplates ''length'' = JNum 0 then (no_templates, log)
      else
        (case slice_items hubspotTemplates lim of
           Inl error \<Rightarrow> (migration_failed error, log)
         | Inr templateToMigrate \<Rightarrow>
             (case hubspot_loop env opts contentBuilderFolderId templateToMigrate ([], [], log) of
                Inl (error, log') \<Rightarrow> (migration_failed error, log')
              | Inr (results, errors, log') \<Rightarrow>
                  (Summary (summary_message ''templates'' (length results) (length errors))
                           results (errors_or_undefined errors) (length results)
                           (Some (length templateToMigrate)),
                   log'))))"

definition fetch_mode ::
  "collaborators \<Rightarrow> sfmc_options \<Rightarrow> js_id \<Rightarrow> int \<Rightarrow> string \<Rightarrow> call list \<Rightarrow> response \<times> call list" where
  "fetch_mode env opts contentBuilderFolderId lim hubspotAccessToken log =
     (case createHubspotClient env log hubspotAccessToken of
        Inl error \<Rightarrow> (migration_failed error, log @ [Call_createHubspotClient hubspotAccessToken])
      | Inr hubspotClient \<Rightarrow>
          (case fetch_templates env hubspotAccessToken
                  (log @ [Call_createHubspotClient hubspotAccessToken]) of
             (Inl error, log') \<Rightarrow> (fetch_failed error, log')
           | (Inr hubspotTemplates, log') \<Rightarrow>
               migrate_fetched env opts contentBuilderFolderId lim hubspotTemplates log'))"

subsection \<open>The handler\<close>

text \<open>
  \<^verbatim>\<open>customTemplates && Array.isArray(customTemplates) && customTemplates.length > 0\<close>:
  the items when the test passes.
\<close>

fun custom_items :: "jsval \<Rightarrow> jsval list option" where
  "custom_items (JArr xs) = (if truthy (JArr xs) \<and> length xs > 0 then Some xs else None)"
| "custom_items v = None"

text \<open>\<^verbatim>\<open>limit = 10\<close> in the destructuring of the body.\<close>

definition limit_or_default :: "request_body \<Rightarrow> int" where
  "limit_or_default body = (case limit body of None \<Rightarrow> 10 | Some n \<Rightarrow> n)"

text \<open>Lines 152 to 420, once the tokens and the folder are resolved.\<close>

definition migrate ::
  "collaborators \<Rightarrow> request_body \<Rightarrow> string \<Rightarrow> sfmc_options \<Rightarrow> js_id \<Rightarrow> call list
    \<Rightarrow> response \<times> call list" where
  "migrate env body hubspotAccessToken opts contentBuilderFolderId log =
     (case custom_items (customTemplates body) of
        Some templates \<Rightarrow> custom_mode env opts contentBuilderFolderId templates log
      | None \<Rightarrow>
          fetch_mode env opts contentBuilderFolderId (limit_or_default body) hubspotAccessToken log)"

text \<open>Lines 16 to 150: the user id, the two tokens and the folder.\<close>

definition prepare ::
  "collaborators \<Rightarrow> request_body
    \<Rightarrow> (response + string \<times> sfmc_options \<times> js_id) \<times> call list" where
  "prepare env body =
     (case userId body of
        None \<Rightarrow> (Inl (ErrorResponse 400 ''User ID is required'' JUndefined), [])
      | Some uid \<Rightarrow>
          if uid = [] then (Inl (ErrorResponse 400 ''User ID is required'' JUndefined), [])
          else
            (case resolve_hubspot_token env body uid [] of
               (Inl r, log1) \<Rightarrow> (Inl r, log1)
             | (Inr hubspotAccessToken, log1) \<Rightarrow>
                 (case resolve_sfmc_token env body uid log1 of
                    (Inl r, log2) \<Rightarrow> (Inl r, log2)
                  | (Inr sfmcAccessToken, log2) \<Rightarrow>
                      (case resolve_folder env body (sfmc_opts body sfmcAccessToken) log2 of
                         (Inl r, log3) \<Rightarrow> (Inl r, log3)
                       | (Inr contentBuilderFolderId, log3) \<Rightarrow>
                           (Inr (hubspotAccessToken, sfmc_opts body sfmcAccessToken,
                                 contentBuilderFolderId),
                            log3)))))"

definition POST :: "collaborators \<Rightarrow> request_body \<Rightarrow> response \<times> call list" where
  "POST env body =
     (case prepare env body of
        (Inl r, log) \<Rightarrow> (r, log)
      | (Inr (hubspotAccessToken, opts, contentBuilderFolderId), log) \<Rightarrow>
          migrate env body hubspotAccessToken opts contentBuilderFolderId log)"

subsection \<open>Reading a response and a list of calls\<close>

fun response_migrated :: "response \<Rightarrow> migration_result list" where
  "response_migrated (Summary msg mig errs tc ta) = mig"
| "response_migrated (ErrorResponse st err det) = []"

fun response_totalAttempted :: "response \<Rightarrow> nat option" where
  "response_totalAttempted (Summary msg mig errs tc ta) = ta"
| "response_totalAttempted (ErrorResponse st err det) = None"


text \<open>\<^verbatim>\<open>errors.length\<close>, an omitted \<^verbatim>\<open>errors\<close> key counting as no error.\<close>

fun errors_length :: "migration_error list option \<Rightarrow> nat" where
  "errors_length None = 0"
| "errors_length (Some es) = length es"

fun response_errors_length :: "response \<Rightarrow> nat" where
  "response_errors_length (Summary msg mig errs tc ta) = errors_length errs"
| "response_errors_length (ErrorResponse st err det) = 0"

fun is_axios_get :: "call \<Rightarrow> bool" where
  "is_axios_get (Call_axios_get url token) = True"
| "is_axios_get c = False"

text \<open>The calls that resolve the tokens and the folder.\<close>

fun is_setup_call :: "call \<Rightarrow> bool" where
  "is_setup_call (Call_getIntegrationTokens uid provider) = True"
| "is_setup_call (Call_getSFMCToken i s d) = True"
| "is_setup_call (Call_getSFMCFolders opts) = True"
| "is_setup_call (Call_createSFMCFolder opts n p) = True"
| "is_setup_call c = False"

text \<open>The calls one turn of a loop can make.\<close>

fun is_item_call :: "call \<Rightarrow> bool" where
  "is_item_call (Call_convertHubspotTemplate a) = True"
| "is_item_call (Call_createEmailTemplate opts n c f m) = True"
| "is_item_call Call_Date_now = True"
| "is_item_call c = False"

text \<open>The arguments of the \<^verbatim>\<open>convertHubspotTemplate\<close> calls of a log, in order.\<close>

fun convert_args :: "call list \<Rightarrow> jsval list" where
  "convert_args [] = []"
| "convert_args (Call_convertHubspotTemplate a # cs) = a # convert_args cs"
| "convert_args (c # cs) = convert_args cs"

text \<open>The template names and the folders of the \<^verbatim>\<open>createEmailTemplate\<close> calls of a log.\<close>

fun create_names :: "call list \<Rightarrow> jsval list" where
  "create_names [] = []"
| "create_names (Call_createEmailTemplate opts n c f m # cs) = n # create_names cs"
| "create_names (c # cs) = create_names cs"

fun create_folders :: "call list \<Rightarrow> js_id list" where
  "create_folders [] = []"
| "create_folders (Call_createEmailTemplate opts n c f m # cs) = f # create_folders cs"
| "create_folders (c # cs) = create_folders cs"

text \<open>The URLs of the \<^verbatim>\<open>axios.get\<close> calls of a log, in order.\<close>

fun axios_urls :: "call list \<Rightarrow> string list" where
  "axios_urls [] = []"
| "axios_urls (Call_axios_get url token # cs) = url # axios_urls cs"
| "axios_urls (c # cs) = axios_urls cs"

text \<open>The log a loop ends with, whether it ran to its end or was thrown out of.\<close>

fun final_log ::
  "js_error \<times> call list + migration_result list \<times> migration_error list \<times> call list \<Rightarrow> call list" where
  "final_log (Inl (error, log)) = log"
| "final_log (Inr (results, errors, log)) = log"

fun is_array :: "jsval \<Rightarrow> bool" where
  "is_array (JArr xs) = True"
| "is_array v = False"

text \<open>A template the fetch-mode loop skips: \<^verbatim>\<open>!templateContent\<close>.\<close>

definition no_content :: "jsval \<Rightarrow> bool" where
  "no_content template = (\<not> truthy (templateContent template))"

text \<open>
  The object a custom template is converted from, \<open>None\<close> for an item whose name
  cannot be rendered (the loop is thrown out of before it converts anything of it).
\<close>

definition custom_argument :: "collaborators \<Rightarrow> jsval \<Rightarrow> jsval option" where
  "custom_argument env template =
     (case template_name_text env template of
        Inl e \<Rightarrow> None
      | Inr name_text \<Rightarrow> Some (with_source template (custom_source template name_text)))"

subsection \<open>The endpoint chain and the markup priority, as the specification words them\<close>

text \<open>
  The four endpoints in the order of the source, each with the reading of its response.
\<close>

definition endpoint_chain :: "(string \<times> (jsval \<Rightarrow> js_error + jsval)) list" where
  "endpoint_chain =
     [(cms_url, data_field ''objects''), (v3_url, data_field ''results''),
      (v1_url, data_itself), (public_url, data_field ''objects'')]"

text \<open>The requests to the first \<open>k\<close> endpoints, in order.\<close>

definition calls_to :: "string \<Rightarrow> nat \<Rightarrow> call list" where
  "calls_to token k = map (\<lambda>(url, extract). Call_axios_get url token) (take k endpoint_chain)"

text \<open>
  What endpoint \<open>i\<close> (counted from 0) answers when it is tried after the endpoints
  before it: the templates, or the error that makes it fail.
\<close>

definition attempt :: "collaborators \<Rightarrow> string \<Rightarrow> call list \<Rightarrow> nat \<Rightarrow> js_error + jsval" where
  "attempt env token log i =
     (case endpoint_chain ! i of
        (url, extract) \<Rightarrow> fst (try_endpoint env url extract token (log @ calls_to token i)))"

fun failed :: "js_error + 'a \<Rightarrow> bool" where
  "failed (Inl e) = True"
| "failed (Inr v) = False"


subsection \<open>Example collaborators and requests\<close>

text \<open>
  A HubSpot account with three templates: one with \<^verbatim>\<open>content\<close> and \<^verbatim>\<open>html\<close>, one
  with no markup at all, one whose markup is under \<^verbatim>\<open>design\<close> and whose conversion
  fails.
\<close>

definition demo_templates :: "jsval list" where
  "demo_templates =
     [JObj [(''id'', JNum 5), (''name'', JStr ''Welcome''),
            (''content'', JStr ''<p>a</p>''), (''html'', JStr ''<p>b</p>'')],
      JObj [(''id'', JNum 6), (''name'', JStr ''Plain'')],
      JObj [(''id'', JNum 7), (''name'', JStr ''Broken''), (''design'', JStr ''<div>'')]]"

text \<open>Small integers are rendered by their decimal digits.\<close>

definition decimal :: "int \<Rightarrow> string" where
  "decimal n = (if n < 0 then CHR ''-'' # show_nat (nat (- n)) else show_nat (nat n))"

definition demo_convert :: "call list \<Rightarrow> jsval \<Rightarrow> js_error + converted_template" where
  "demo_convert log template =
     (if get_prop template ''name'' = JStr ''Broken''
      then Inl (JsError ''conversion failed'' JUndefined)
      else Inr \<lparr> content = get_prop template ''source'',
                 channels = JObj [(''email'', JBool True)],
                 slots = JObj [] \<rparr>)"

definition demo_root :: sfmc_folder where
  "demo_root = \<lparr> folder_id = NumId 1, folder_name = ''Content Builder'', parentId = None \<rparr>"

definition demo_child :: sfmc_folder where
  "demo_child =
     \<lparr> folder_id = NumId 9, folder_name = ''HubSpot Templates'', parentId = Some (NumId 1) \<rparr>"

text \<open>
  Both tokens are in the store, SFMC has the root folder only, the first HubSpot endpoint
  answers and the others fail.
\<close>

definition demo_env :: collaborators where
  "demo_env =
     \<lparr> getIntegrationTokens = (\<lambda>log uid provider. Inr (Some (provider @ ''-token''))),
       getSFMCToken = (\<lambda>log i s d. Inr ''minted-token''),
       getSFMCFolders = (\<lambda>log opts. Inr [demo_root]),
       createSFMCFolder = (\<lambda>log opts n p.
          Inr \<lparr> folder_id = NumId 7, folder_name = n, parentId = Some p \<rparr>),
       createHubspotClient = (\<lambda>log token. Inr ()),
       axios_get = (\<lambda>log url token.
          if url = cms_url then Inr (JObj [(''objects'', JArr demo_templates)])
          else Inl (JsError (''failed: '' @ url) JUndefined)),
       convertHubspotTemplate = demo_convert,
       createEmailTemplate = (\<lambda>log opts n c f m.
          Inr \<lparr> asset_id = JNum (int (length log)), customerKey = JStr ''key'' \<rparr>),
       Date_now = (\<lambda>log. 1700 + length log),
       Number_toString = decimal \<rparr>"

text \<open>SFMC already has the folder for the migrated templates; SFMC has no root folder.\<close>

definition existing_folder_env :: collaborators where
  "existing_folder_env =
     demo_env \<lparr> getSFMCFolders := (\<lambda>log opts. Inr [demo_child, demo_root, demo_child]) \<rparr>"

definition no_root_env :: collaborators where
  "no_root_env = demo_env \<lparr> getSFMCFolders := (\<lambda>log opts. Inr [demo_child]) \<rparr>"

text \<open>Every HubSpot endpoint fails, each with its own message.\<close>

definition failing_fetch_env :: collaborators where
  "failing_fetch_env =
     demo_env \<lparr> axios_get := (\<lambda>log url token. Inl (JsError (''failed: '' @ url) JUndefined)) \<rparr>"

text \<open>The credential store cannot be read.\<close>

definition store_down_env :: collaborators where
  "store_down_env =
     demo_env \<lparr> getIntegrationTokens :=
                  (\<lambda>log uid provider. Inl (JsError ''store unavailable'' JUndefined)) \<rparr>"

text \<open>The store has no record for anybody.\<close>

definition empty_store_env :: collaborators where
  "empty_store_env = demo_env \<lparr> getIntegrationTokens := (\<lambda>log uid provider. Inr None) \<rparr>"

definition demo_body :: request_body where
  "demo_body =
     \<lparr> userId = Some ''u1'', hubspotToken = None, sfmcCredentials = None,
       limit = None, folderId = None, customTemplates = JUndefined \<rparr>"

definition demo_custom_templates :: "jsval list" where
  "demo_custom_templates =
     [JObj [(''name'', JStr ''Promo''), (''content'', JStr ''<p>hi</p>'')],
      JObj [(''id'', JStr ''c2''), (''name'', JStr ''Bare'')],
      JObj [(''name'', JStr ''Broken''), (''html'', JStr ''<b>x</b>'')]]"

text \<open>The same request with the HubSpot token in the body.\<close>

definition demo_token_body :: request_body where
  "demo_token_body = demo_body \<lparr> hubspotToken := Some ''inline-token'' \<rparr>"



definition demo_custom_body :: request_body where
  "demo_custom_body = demo_body \<lparr> customTemplates := JArr demo_custom_templates \<rparr>"

text \<open>
  Requests whose custom templates hold a \<^verbatim>\<open>null\<close> item, or a template whose name is
  the JSON object \<^verbatim>\<open>{"toString": 1}\<close>.
\<close>

definition null_item_body :: request_body where
  "null_item_body =
     demo_body \<lparr> customTemplates :=
       JArr [JObj [(''name'', JStr ''Promo''), (''content'', JStr ''<p>hi</p>'')],
             JNull,
             JObj [(''id'', JStr ''c2''), (''name'', JStr ''Bare'')]] \<rparr>"

definition null_first_body :: request_body where
  "null_first_body =
     demo_body \<lparr> customTemplates :=
       JArr [JNull, JObj [(''name'', JStr ''Promo''), (''content'', JStr ''<p>hi</p>'')]] \<rparr>"

definition odd_name_body :: request_body where
  "odd_name_body =
     demo_body \<lparr> customTemplates :=
       JArr [JObj [(''name'', JObj [(''toString'', JNum 1)])]] \<rparr>"

definition odd_name_second_body :: request_body where
  "odd_name_second_body =
     demo_body \<lparr> customTemplates :=
       JArr [JObj [(''name'', JStr ''Promo''), (''content'', JStr ''<p>hi</p>'')],
             JObj [(''name'', JObj [(''toString'', JNum 1)]), (''content'', JStr ''<p>x</p>'')],
             JObj [(''id'', JStr ''c2''), (''name'', JStr ''Bare'')]] \<rparr>"

text \<open>HubSpot answers a list with a \<^verbatim>\<open>null\<close> in it.\<close>

definition null_fetched_env :: collaborators where
  "null_fetched_env =
     demo_env \<lparr> axios_get := (\<lambda>log url token.
        if url = cms_url
        then Inr (JObj [(''objects'', JArr [demo_templates ! 0, JNull, demo_templates ! 2])])
        else Inl (JsError (''failed: '' @ url) JUndefined)) \<rparr>"

text \<open>
  The first two endpoints fail and the third answers with an object that is not a list.
\<close>

definition v1_object_env :: collaborators where
  "v1_object_env =
     demo_env \<lparr> axios_get := (\<lambda>log url token.
        if url = v1_url then Inr (JObj [(''message'', JStr ''ok'')])
        else Inl (JsError (''failed: '' @ url) JUndefined)) \<rparr>"

definition demo_opts :: sfmc_options where
  "demo_opts = sfmc_opts demo_body ''sfmc-token''"

text \<open>The calls that resolve the tokens and the folder in the example.\<close>

definition demo_setup_calls :: "call list" where
  "demo_setup_calls =
     [Call_getIntegrationTokens ''u1'' ''hubspot'', Call_getIntegrationTokens ''u1'' ''sfmc'',
      Call_getSFMCFolders demo_opts,
      Call_createSFMCFolder demo_opts ''HubSpot Templates'' (NumId 1)]"

section \<open>Properties\<close>

subsection \<open>The calls and the entries of the two loops\<close>

lemma convert_args_append [simp]: "convert_args (xs @ ys) = convert_args xs @ convert_args ys"
  by (induction xs rule: convert_args.induct) simp_all

lemma create_folders_append [simp]: "create_folders (xs @ ys) = create_folders xs @ create_folders ys"
  by (induction xs rule: create_folders.induct) simp_all

lemma create_names_append [simp]: "create_names (xs @ ys) = create_names xs @ create_names ys"
  by (induction xs rule: create_names.induct) simp_all

lemma axios_urls_append [simp]: "axios_urls (xs @ ys) = axios_urls xs @ axios_urls ys"
  by (induction xs rule: axios_urls.induct) simp_all

lemma axios_urls_item_calls: "\<forall>c\<in>set cs. is_item_call c \<Longrightarrow> axios_urls cs = []"
  by (induction cs rule: axios_urls.induct) simp_all

text \<open>What convert-and-create adds to the log.\<close>

lemma convert_and_create_calls:
  assumes "convert_and_create env opts fid t src log = (r, log1)"
  shows "\<exists>new. log1 = log @ new
           \<and> (\<forall>c\<in>set new. is_item_call c)
           \<and> convert_args new = [with_source t src]
           \<and> set (create_folders new) \<subseteq> {fid}
           \<and> (create_names new = [] \<or> create_names new = [get_prop t ''name''])
           \<and> ((\<exists>a. r = Inr a) \<longrightarrow> create_names new = [get_prop t ''name''])"
  using assms
  by (auto simp: convert_and_create_def split: sum.splits)

lemma custom_id_calls:
  assumes "custom_id env t log = (cid, log1)"
  shows "\<exists>new. log1 = log @ new \<and> (\<forall>c\<in>set new. is_item_call c) \<and> convert_args new = []
           \<and> create_folders new = [] \<and> create_names new = []"
  using assms by (auto simp: custom_id_def split: if_splits)

lemma custom_step_log:
  "\<exists>new. final_log (custom_step env opts fid t (rs, es, log)) = log @ new
         \<and> (\<forall>c\<in>set new. is_item_call c) \<and> set (create_folders new) \<subseteq> {fid}"
proof (cases "template_name_text env t")
  case (Inl e)
  then show ?thesis by (simp add: custom_step_def)
next
  case (Inr nt)
  obtain r log1 where cc: "convert_and_create env opts fid t (custom_source t nt) log = (r, log1)"
    by (cases "convert_and_create env opts fid t (custom_source t nt) log")
  obtain cid log2 where ci: "custom_id env t log1 = (cid, log2)"
    by (cases "custom_id env t log1")
  from convert_and_create_calls [OF cc] obtain n1 where
    n1: "log1 = log @ n1" "\<forall>c\<in>set n1. is_item_call c" "set (create_folders n1) \<subseteq> {fid}"
    by blast
  from custom_id_calls [OF ci] obtain n2 where
    n2: "log2 = log1 @ n2" "\<forall>c\<in>set n2. is_item_call c" "create_folders n2 = []"
    by blast
  have "final_log (custom_step env opts fid t (rs, es, log)) = log @ (n1 @ n2)"
    using Inr cc ci n1(1) n2(1) by (cases r) (simp_all add: custom_step_def)
  moreover have "\<forall>c\<in>set (n1 @ n2). is_item_call c" using n1(2) n2(2) by auto
  moreover have "set (create_folders (n1 @ n2)) \<subseteq> {fid}" using n1(3) n2(3) by simp
  ultimately show ?thesis by blast
qed

lemma custom_loop_log:
  "\<exists>new. final_log (custom_loop env opts fid ts (rs, es, log)) = log @ new
         \<and> (\<forall>c\<in>set new. is_item_call c) \<and> set (create_folders new) \<subseteq> {fid}"
proof (induction ts arbitrary: rs es log)
  case Nil
  show ?case by simp
next
  case (Cons t ts)
  from custom_step_log [of env opts fid t rs es log] obtain n1 where
    n1: "final_log (custom_step env opts fid t (rs, es, log)) = log @ n1"
        "\<forall>c\<in>set n1. is_item_call c" "set (create_folders n1) \<subseteq> {fid}"
    by blast
  show ?case
  proof (cases "custom_step env opts fid t (rs, es, log)")
    case (Inl a)
    then show ?thesis using n1 by (cases a) auto
  next
    case (Inr acc)
    obtain rs1 es1 log1 where acc: "acc = (rs1, es1, log1)" by (cases acc)
    with Inr n1 have l1: "log1 = log @ n1" by simp
    from Cons.IH [of rs1 es1 log1] obtain n2 where
      n2: "final_log (custom_loop env opts fid ts (rs1, es1, log1)) = log1 @ n2"
          "\<forall>c\<in>set n2. is_item_call c" "set (create_folders n2) \<subseteq> {fid}"
      by blast
    have "final_log (custom_loop env opts fid (t # ts) (rs, es, log)) = log @ (n1 @ n2)"
      using Inr acc n2(1) l1 by simp
    moreover have "\<forall>c\<in>set (n1 @ n2). is_item_call c" using n1(2) n2(2) by auto
    moreover have "set (create_folders (n1 @ n2)) \<subseteq> {fid}" using n1(3) n2(3) by simp
    ultimately show ?thesis by blast
  qed
qed


lemma custom_step_effect:
  assumes "custom_step env opts fid t (rs, es, log) = Inr (rs', es', log')"
  shows "\<exists>nt. template_name_text env t = Inr nt
       \<and> ((\<exists>r. rs' = rs @ [r] \<and> es' = es) \<or> (\<exists>e. rs' = rs \<and> es' = es @ [e]))
       \<and> (\<exists>new. log' = log @ new
             \<and> convert_args new = [with_source t (custom_source t nt)]
             \<and> subseq (create_names new) [get_prop t ''name'']
             \<and> length rs' - length rs \<le> length (create_names new))"
proof -
  from assms obtain nt where nt: "template_name_text env t = Inr nt"
    by (cases "template_name_text env t") (auto simp: custom_step_def)
  obtain r log1 where cc: "convert_and_create env opts fid t (custom_source t nt) log = (r, log1)"
    by (cases "convert_and_create env opts fid t (custom_source t nt) log")
  obtain cid log2 where ci: "custom_id env t log1 = (cid, log2)"
    by (cases "custom_id env t log1")
  from convert_and_create_calls [OF cc] obtain n1 where
    n1: "log1 = log @ n1" "convert_args n1 = [with_source t (custom_source t nt)]"
        "create_names n1 = [] \<or> create_names n1 = [get_prop t ''name'']"
        "(\<exists>a. r = Inr a) \<longrightarrow> create_names n1 = [get_prop t ''name'']"
    by blast
  from custom_id_calls [OF ci] obtain n2 where
    n2: "log2 = log1 @ n2" "convert_args n2 = []" "create_names n2 = []"
    by blast
  have l: "log' = log @ (n1 @ n2)"
    using assms nt cc ci n1(1) n2(1) by (cases r) (simp_all add: custom_step_def)
  have c: "convert_args (n1 @ n2) = [with_source t (custom_source t nt)]"
    using n1(2) n2(2) by simp
  have s: "subseq (create_names (n1 @ n2)) [get_prop t ''name'']"
    using n1(3) n2(3) by auto
  have e: "(\<exists>r. rs' = rs @ [r] \<and> es' = es) \<or> (\<exists>e. rs' = rs \<and> es' = es @ [e])"
    using assms nt cc ci by (cases r) (auto simp: custom_step_def)
  have k: "length rs' - length rs \<le> length (create_names (n1 @ n2))"
    using assms nt cc ci n1(4) n2(3) by (cases r) (auto simp: custom_step_def)
  from nt e l c s k show ?thesis by blast
qed

lemma custom_argument_rendered:
  "template_name_text env t = Inr nt \<Longrightarrow>
     custom_argument env t = Some (with_source t (custom_source t nt))"
  by (simp add: custom_argument_def)

lemma custom_loop_effect:
  assumes "custom_loop env opts fid ts (rs, es, log) = Inr (rs', es', log')"
  shows "(\<forall>t\<in>set ts. \<not> isl (template_name_text env t))
       \<and> length rs \<le> length rs'
       \<and> length rs' + length es' = length rs + length es + length ts
       \<and> (\<exists>new. log' = log @ new
             \<and> map Some (convert_args new) = map (custom_argument env) ts
             \<and> subseq (create_names new) (map (\<lambda>t. get_prop t ''name'') ts)
             \<and> length rs' - length rs \<le> length (create_names new))"
  using assms
proof (induction ts arbitrary: rs es log)
  case Nil
  then show ?case by simp
next
  case (Cons t ts)
  from Cons.prems obtain rs1 es1 log1 where
    st: "custom_step env opts fid t (rs, es, log) = Inr (rs1, es1, log1)"
    and lp: "custom_loop env opts fid ts (rs1, es1, log1) = Inr (rs', es', log')"
    by (auto split: sum.splits)
  from custom_step_effect [OF st] obtain nt n1 where
    a: "template_name_text env t = Inr nt"
       "(\<exists>r. rs1 = rs @ [r] \<and> es1 = es) \<or> (\<exists>e. rs1 = rs \<and> es1 = es @ [e])"
       "log1 = log @ n1"
       "convert_args n1 = [with_source t (custom_source t nt)]"
       "subseq (create_names n1) [get_prop t ''name'']"
       "length rs1 - length rs \<le> length (create_names n1)"
    by blast
  from Cons.IH [OF lp] obtain n2 where
    b: "\<forall>t\<in>set ts. \<not> isl (template_name_text env t)"
       "length rs1 \<le> length rs'"
       "length rs' + length es' = length rs1 + length es1 + length ts"
       "log' = log1 @ n2"
       "map Some (convert_args n2) = map (custom_argument env) ts"
       "subseq (create_names n2) (map (\<lambda>t. get_prop t ''name'') ts)"
       "length rs' - length rs1 \<le> length (create_names n2)"
    by blast
  have 1: "\<forall>t\<in>set (t # ts). \<not> isl (template_name_text env t)" using a(1) b(1) by simp
  have 2: "length rs \<le> length rs'" using a(2) b(2) by auto
  have 3: "length rs' + length es' = length rs + length es + length (t # ts)"
    using a(2) b(3) by auto
  have 4: "log' = log @ (n1 @ n2)" using a(3) b(4) by simp
  have 5: "map Some (convert_args (n1 @ n2)) = map (custom_argument env) (t # ts)"
    using a(4) b(5) custom_argument_rendered [OF a(1)] by simp
  have "subseq (create_names n1 @ create_names n2)
               ([get_prop t ''name''] @ map (\<lambda>t. get_prop t ''name'') ts)"
    using a(5) b(6) by (rule list_emb_append_mono)
  then have 6: "subseq (create_names (n1 @ n2)) (map (\<lambda>t. get_prop t ''name'') (t # ts))"
    by simp
  have 7: "length rs' - length rs \<le> length (create_names (n1 @ n2))"
    using a(2) a(6) b(2) b(7) by auto
  from 1 2 3 4 5 6 7 show ?case by blast
qed

lemma hubspot_step_log:
  "\<exists>new. final_log (hubspot_step env opts fid t (rs, es, log)) = log @ new
         \<and> (\<forall>c\<in>set new. is_item_call c) \<and> set (create_folders new) \<subseteq> {fid}"
proof (cases "is_nullish t \<or> no_content t")
  case True
  then show ?thesis by (auto simp: hubspot_step_def no_content_def)
next
  case False
  obtain r log1 where cc: "convert_and_create env opts fid t (templateContent t) log = (r, log1)"
    by (cases "convert_and_create env opts fid t (templateContent t) log")
  from convert_and_create_calls [OF cc] obtain n1 where
    n1: "log1 = log @ n1" "\<forall>c\<in>set n1. is_item_call c" "set (create_folders n1) \<subseteq> {fid}"
    by blast
  have "final_log (hubspot_step env opts fid t (rs, es, log)) = log @ n1"
    using False cc n1(1) by (cases r) (simp_all add: hubspot_step_def no_content_def)
  with n1 show ?thesis by blast
qed

lemma hubspot_loop_log:
  "\<exists>new. final_log (hubspot_loop env opts fid ts (rs, es, log)) = log @ new
         \<and> (\<forall>c\<in>set new. is_item_call c) \<and> set (create_folders new) \<subseteq> {fid}"
proof (induction ts arbitrary: rs es log)
  case Nil
  show ?case by simp
next
  case (Cons t ts)
  from hubspot_step_log [of env opts fid t rs es log] obtain n1 where
    n1: "final_log (hubspot_step env opts fid t (rs, es, log)) = log @ n1"
        "\<forall>c\<in>set n1. is_item_call c" "set (create_folders n1) \<subseteq> {fid}"
    by blast
  show ?case
  proof (cases "hubspot_step env opts fid t (rs, es, log)")
    case (Inl a)
    then show ?thesis using n1 by (cases a) auto
  next
    case (Inr acc)
    obtain rs1 es1 log1 where acc: "acc = (rs1, es1, log1)" by (cases acc)
    with Inr n1 have l1: "log1 = log @ n1" by simp
    from Cons.IH [of rs1 es1 log1] obtain n2 where
      n2: "final_log (hubspot_loop env opts fid ts (rs1, es1, log1)) = log1 @ n2"
          "\<forall>c\<in>set n2. is_item_call c" "set (create_folders n2) \<subseteq> {fid}"
      by blast
    have "final_log (hubspot_loop env opts fid (t # ts) (rs, es, log)) = log @ (n1 @ n2)"
      using Inr acc n2(1) l1 by simp
    moreover have "\<forall>c\<in>set (n1 @ n2). is_item_call c" using n1(2) n2(2) by auto
    moreover have "set (create_folders (n1 @ n2)) \<subseteq> {fid}" using n1(3) n2(3) by simp
    ultimately show ?thesis by blast
  qed
qed



text \<open>A loop over items none of which is null runs to its end.\<close>

lemma custom_step_returns:
  "\<not> isl (template_name_text env t) \<Longrightarrow> \<exists>acc'. custom_step env opts fid t acc = Inr acc'"
  by (cases acc; cases "template_name_text env t")
     (auto simp: custom_step_def split: sum.splits prod.splits)

lemma hubspot_step_returns:
  "\<not> is_nullish t \<Longrightarrow> \<exists>acc'. hubspot_step env opts fid t acc = Inr acc'"
  by (cases acc) (auto simp: hubspot_step_def split: sum.splits prod.splits)

lemma custom_loop_returns:
  "\<forall>t\<in>set ts. \<not> isl (template_name_text env t) \<Longrightarrow>
     \<exists>acc'. custom_loop env opts fid ts acc = Inr acc'"
proof (induction ts arbitrary: acc)
  case Nil
  show ?case by (simp del: split_paired_Ex)
next
  case (Cons t ts)
  from Cons.prems have "\<not> isl (template_name_text env t)" by simp
  from custom_step_returns [OF this] obtain acc1 where
    "custom_step env opts fid t acc = Inr acc1" by blast
  with Cons show ?case by (simp del: split_paired_Ex)
qed

lemma hubspot_loop_returns:
  "\<forall>t\<in>set ts. \<not> is_nullish t \<Longrightarrow> \<exists>acc'. hubspot_loop env opts fid ts acc = Inr acc'"
proof (induction ts arbitrary: acc)
  case Nil
  show ?case by (simp del: split_paired_Ex)
next
  case (Cons t ts)
  from Cons.prems have "\<not> is_nullish t" by simp
  from hubspot_step_returns [OF this] obtain acc1 where
    "hubspot_step env opts fid t acc = Inr acc1" by blast
  with Cons show ?case by (simp del: split_paired_Ex)
qed

lemma custom_loop_append:
  "custom_loop env opts fid (xs @ ys) acc =
     (case custom_loop env opts fid xs acc of
        Inl abort \<Rightarrow> Inl abort
      | Inr acc' \<Rightarrow> custom_loop env opts fid ys acc')"
  by (induction xs arbitrary: acc) (simp_all split: sum.splits)

lemma hubspot_loop_append:
  "hubspot_loop env opts fid (xs @ ys) acc =
     (case hubspot_loop env opts fid xs acc of
        Inl abort \<Rightarrow> Inl abort
      | Inr acc' \<Rightarrow> hubspot_loop env opts fid ys acc')"
  by (induction xs arbitrary: acc) (simp_all split: sum.splits)

subsection \<open>The phases of the handler\<close>

lemma POST_cases:
  assumes "POST env body = (r, log)"
  shows "prepare env body = (Inl r, log)
       \<or> (\<exists>tok opts fid log0. prepare env body = (Inr (tok, opts, fid), log0)
             \<and> migrate env body tok opts fid log0 = (r, log))"
  using assms by (auto simp: POST_def split: prod.splits sum.splits)




lemma find_or_create_folder_response:
  "find_or_create_folder env opts log = (Inl r, log') \<Longrightarrow> r = folder_failed"
  by (auto simp: find_or_create_folder_def split: sum.splits option.splits)

lemma resolve_folder_response:
  "resolve_folder env body opts log = (Inl r, log') \<Longrightarrow> r = folder_failed"
  by (auto simp: resolve_folder_def split: option.splits if_splits
           dest: find_or_create_folder_response)


lemma errors_length_errors_or_undefined [simp]:
  "errors_length (errors_or_undefined es) = length es"
  by (cases es) (simp_all add: errors_or_undefined_def)




subsection \<open>C1: the counts of a summary\<close>




subsection \<open>C4: the failure of one item\<close>

lemma custom_step_failure:
  assumes "template_name_text env t = Inr nt"
    and "convert_and_create env opts fid t (custom_source t nt) log = (Inl e, log1)"
  shows "custom_step env opts fid t (rs, es, log) =
           Inr (rs,
                es @ [CustomError (fst (custom_id env t log1)) (get_prop t ''name'')
                        (err_message e) ''error''],
                snd (custom_id env t log1))"
  using assms by (simp add: custom_step_def split: prod.splits)

lemma hubspot_step_failure:
  assumes "\<not> is_nullish t" and "\<not> no_content t"
    and "convert_and_create env opts fid t (templateContent t) log = (Inl e, log1)"
  shows "hubspot_step env opts fid t (rs, es, log) =
           Inr (rs,
                es @ [HubspotError (get_prop t ''id'') (get_prop t ''name'')
                        (err_message e) ''error''],
                log1)"
  using assms by (simp add: hubspot_step_def no_content_def)

lemma custom_id_of_template:
  "truthy (get_prop t ''id'') \<Longrightarrow> custom_id env t log = (get_prop t ''id'', log)"
  by (simp add: custom_id_def)

text \<open>
  What the \<^verbatim>\<open>catch\<close> blocks achieve: an error thrown by the conversion or by the
  creation is recorded as one entry of \<^verbatim>\<open>errors\<close>, and the loop goes on from there.
\<close>

lemma thrown_error_recorded:
  "(template_name_text env t = Inr nt
      \<and> convert_and_create env opts fid t (custom_source t nt) log = (Inl e, log1)
      \<longrightarrow> custom_loop env opts fid (t # rest) (rs, es, log) =
            custom_loop env opts fid rest
              (rs,
               es @ [CustomError (fst (custom_id env t log1)) (get_prop t ''name'')
                       (err_message e) ''error''],
               snd (custom_id env t log1)))
   \<and> (\<not> is_nullish t \<and> \<not> no_content t
        \<and> convert_and_create env opts fid t (templateContent t) log = (Inl e, log1)
      \<longrightarrow> hubspot_loop env opts fid (t # rest) (rs, es, log) =
            hubspot_loop env opts fid rest
              (rs,
               es @ [HubspotError (get_prop t ''id'') (get_prop t ''name'')
                       (err_message e) ''error''],
               log1))"
  by (simp add: custom_step_failure hubspot_step_failure)

text \<open>
  What they miss: an item whose name cannot be rendered, or a \<^verbatim>\<open>null\<close> item, throws
  in the \<^verbatim>\<open>catch\<close> block as it did in the \<^verbatim>\<open>try\<close> block, and the loop ends there,
  whatever items follow.
\<close>

lemma thrown_out_of_loop:
  "(template_name_text env t = Inl e
      \<longrightarrow> custom_loop env opts fid (t # rest) (rs, es, log) = Inl (e, log))
   \<and> (is_nullish t
      \<longrightarrow> hubspot_loop env opts fid (t # rest) (rs, es, log)
            = Inl (type_error_read t ''name'', log))"
  by (simp add: custom_step_def hubspot_step_def)

lemma template_name_text_null:
  "is_nullish t \<Longrightarrow> template_name_text env t = Inl (type_error_read t ''name'')"
  by (simp add: template_name_text_def read_prop_def)

text \<open>
  Claim C4 says that the failure of an item is isolated in both loops: the error is
  caught, recorded as one entry of \<^verbatim>\<open>errors\<close>, and no single item's failure ends the
  run or suppresses the results of later items. The handler breaks it on a \<^verbatim>\<open>null\<close>
  item. In custom mode, with the templates \<^verbatim>\<open>Promo\<close>, \<^verbatim>\<open>null\<close>, \<^verbatim>\<open>Bare\<close>, the run
  creates the asset of \<^verbatim>\<open>Promo\<close> and then ends with the HTTP 500 response of the
  outer \<^verbatim>\<open>catch\<close>: no summary, no entry for the \<^verbatim>\<open>null\<close> item, and \<^verbatim>\<open>Bare\<close> is
  never converted. In fetch mode, with \<^verbatim>\<open>Welcome\<close>, \<^verbatim>\<open>null\<close>, \<^verbatim>\<open>Broken\<close> fetched,
  the run ends the same way after \<^verbatim>\<open>Welcome\<close>.
\<close>

theorem null_item_ends_run:
  "fst (POST demo_env null_item_body)
     = ErrorResponse 500 ''Failed to migrate email templates''
         (JStr (err_message (type_error_read JNull ''name'')))
   \<and> create_names (snd (POST demo_env null_item_body)) = [JStr ''Promo'']
   \<and> convert_args (snd (POST demo_env null_item_body))
       = [JObj [(''name'', JStr ''Promo''), (''content'', JStr ''<p>hi</p>''),
                (''source'', JStr ''<p>hi</p>'')]]
   \<and> fst (POST null_fetched_env demo_body)
     = ErrorResponse 500 ''Failed to migrate email templates''
         (JStr (err_message (type_error_read JNull ''name'')))
   \<and> create_names (snd (POST null_fetched_env demo_body)) = [JStr ''Welcome'']
   \<and> length (convert_args (snd (POST null_fetched_env demo_body))) = 1"
  by code_simp

subsection \<open>The calls of the phases\<close>

lemma setup_calls_projections:
  "\<forall>c\<in>set cs. is_setup_call c \<Longrightarrow>
     axios_urls cs = [] \<and> convert_args cs = [] \<and> create_folders cs = [] \<and> create_names cs = []"
proof (induction cs)
  case Nil
  show ?case by simp
next
  case (Cons c cs)
  then show ?case by (cases c) simp_all
qed

lemma hubspot_token_from_store_calls:
  "hubspot_token_from_store env uid log = (r, log') \<Longrightarrow>
     \<exists>new. log' = log @ new \<and> (\<forall>c\<in>set new. is_setup_call c)"
  by (auto simp: hubspot_token_from_store_def split: sum.splits option.splits)

lemma resolve_hubspot_token_calls:
  "resolve_hubspot_token env body uid log = (r, log') \<Longrightarrow>
     \<exists>new. log' = log @ new \<and> (\<forall>c\<in>set new. is_setup_call c)"
  by (auto simp: resolve_hubspot_token_def split: option.splits if_splits
           dest: hubspot_token_from_store_calls)

lemma resolve_sfmc_token_calls:
  "resolve_sfmc_token env body uid log = (r, log') \<Longrightarrow>
     \<exists>new. log' = log @ new \<and> (\<forall>c\<in>set new. is_setup_call c)"
  by (auto simp: resolve_sfmc_token_def split: sum.splits option.splits)

lemma find_or_create_folder_calls:
  "find_or_create_folder env opts log = (r, log') \<Longrightarrow>
     \<exists>new. log' = log @ new \<and> (\<forall>c\<in>set new. is_setup_call c)"
  by (auto simp: find_or_create_folder_def split: sum.splits option.splits)

lemma resolve_folder_calls:
  "resolve_folder env body opts log = (r, log') \<Longrightarrow>
     \<exists>new. log' = log @ new \<and> (\<forall>c\<in>set new. is_setup_call c)"
  by (auto simp: resolve_folder_def split: option.splits if_splits
           dest: find_or_create_folder_calls)

lemma prepare_calls:
  assumes "prepare env body = (r, log)"
  shows "\<forall>c\<in>set log. is_setup_call c"
proof (cases "userId body")
  case None
  with assms show ?thesis by (simp add: prepare_def)
next
  case (Some uid)
  show ?thesis
  proof (cases "uid = []")
    case True
    with assms Some show ?thesis by (simp add: prepare_def)
  next
    case False
    obtain r1 log1 where h: "resolve_hubspot_token env body uid [] = (r1, log1)"
      by (cases "resolve_hubspot_token env body uid []")
    from resolve_hubspot_token_calls [OF h] have l1: "\<forall>c\<in>set log1. is_setup_call c" by auto
    show ?thesis
    proof (cases r1)
      case (Inl a)
      with assms Some False h l1 show ?thesis by (simp add: prepare_def)
    next
      case (Inr tok)
      obtain r2 log2 where s: "resolve_sfmc_token env body uid log1 = (r2, log2)"
        by (cases "resolve_sfmc_token env body uid log1")
      from resolve_sfmc_token_calls [OF s] l1 have l2: "\<forall>c\<in>set log2. is_setup_call c" by auto
      show ?thesis
      proof (cases r2)
        case (Inl a)
        with assms Some False h Inr s l2 show ?thesis by (simp add: prepare_def)
      next
        case st: (Inr stok)
        obtain r3 log3 where f: "resolve_folder env body (sfmc_opts body stok) log2 = (r3, log3)"
          by (cases "resolve_folder env body (sfmc_opts body stok) log2")
        from resolve_folder_calls [OF f] l2 have l3: "\<forall>c\<in>set log3. is_setup_call c" by auto
        from assms Some False h Inr s st f l3 show ?thesis
          by (cases r3) (simp_all add: prepare_def)
      qed
    qed
  qed
qed

lemma custom_mode_calls:
  assumes "custom_mode env opts fid ts log0 = (r, log)"
  shows "\<exists>new. log = log0 @ new \<and> (\<forall>c\<in>set new. is_item_call c)
           \<and> set (create_folders new) \<subseteq> {fid}"
proof -
  from custom_loop_log [of env opts fid ts "[]" "[]" log0] obtain new where
    n: "final_log (custom_loop env opts fid ts ([], [], log0)) = log0 @ new"
       "\<forall>c\<in>set new. is_item_call c" "set (create_folders new) \<subseteq> {fid}"
    by blast
  have "log = final_log (custom_loop env opts fid ts ([], [], log0))"
    using assms by (auto simp: custom_mode_def split: sum.splits prod.splits)
  with n show ?thesis by auto
qed

lemma custom_items_array:
  "templates \<noteq> [] \<Longrightarrow> custom_items (JArr templates) = Some templates"
  by simp

subsection \<open>C5: custom templates are migrated without fetching\<close>

text \<open>
  With a non-empty array of custom templates the run makes no \<^verbatim>\<open>axios.get\<close> call at
  all, however it ends.
\<close>

lemma custom_mode_no_fetch:
  assumes "customTemplates body = JArr templates" and "templates \<noteq> []"
  shows "axios_urls (snd (POST env body)) = []"
proof -
  obtain r log where p: "POST env body = (r, log)" by (cases "POST env body")
  from POST_cases [OF p] show ?thesis
  proof
    assume "prepare env body = (Inl r, log)"
    from prepare_calls [OF this] p show ?thesis by (simp add: setup_calls_projections)
  next
    assume "\<exists>tok opts fid log0. prepare env body = (Inr (tok, opts, fid), log0)
             \<and> migrate env body tok opts fid log0 = (r, log)"
    then obtain tok opts fid log0 where
      pr: "prepare env body = (Inr (tok, opts, fid), log0)"
      and mg: "migrate env body tok opts fid log0 = (r, log)"
      by blast
    from mg assms have "custom_mode env opts fid templates log0 = (r, log)"
      by (simp add: migrate_def)
    from custom_mode_calls [OF this] obtain new where
      "log = log0 @ new" "\<forall>c\<in>set new. is_item_call c" by blast
    with prepare_calls [OF pr] p show ?thesis
      by (simp add: setup_calls_projections axios_urls_item_calls)
  qed
qed

text \<open>
  When the tokens and the folder are resolved and the name of every supplied template can
  be rendered, the run returns a summary whose \<^verbatim>\<open>totalAttempted\<close> is the length of the
  array; it converts every supplied template once, in order, creates only supplied
  templates, in the resolved folder, and every template ends as one entry.
\<close>

lemma custom_mode_summary_of_all:
  assumes "customTemplates body = JArr templates" and "templates \<noteq> []"
    and "prepare env body = (Inr (tok, opts, fid), log0)"
    and "\<forall>t\<in>set templates. \<not> isl (template_name_text env t)"
  shows "\<exists>msg mig errs tc new.
           POST env body = (Summary msg mig errs tc (Some (length templates)), log0 @ new)
         \<and> map Some (convert_args new) = map (custom_argument env) templates
         \<and> subseq (create_names new) (map (\<lambda>t. get_prop t ''name'') templates)
         \<and> length mig \<le> length (create_names new)
         \<and> set (create_folders new) \<subseteq> {fid}
         \<and> length mig + errors_length errs = length templates"
proof -
  have po: "POST env body = custom_mode env opts fid templates log0"
    using assms(1,2,3) by (simp add: POST_def migrate_def)
  from custom_loop_returns [OF assms(4), of opts fid "([], [], log0)"]
  obtain acc where "custom_loop env opts fid templates ([], [], log0) = Inr acc" by blast
  then obtain rs es log where
    lp: "custom_loop env opts fid templates ([], [], log0) = Inr (rs, es, log)"
    by (cases acc) auto
  from custom_loop_effect [OF lp] obtain new where
    e: "length rs + length es = length templates" "log = log0 @ new"
       "map Some (convert_args new) = map (custom_argument env) templates"
       "subseq (create_names new) (map (\<lambda>t. get_prop t ''name'') templates)"
       "length rs \<le> length (create_names new)"
    by auto
  from custom_loop_log [of env opts fid templates "[]" "[]" log0] lp e(2)
  have f: "set (create_folders new) \<subseteq> {fid}" by auto
  have "POST env body =
          (Summary (summary_message ''custom templates'' (length rs) (length es)) rs
             (errors_or_undefined es) (length rs) (Some (length templates)), log0 @ new)"
    using po lp e(2) by (simp add: custom_mode_def)
  with e f show ?thesis
    by (intro exI [of _ "summary_message ''custom templates'' (length rs) (length es)"]
              exI [of _ rs] exI [of _ "errors_or_undefined es"] exI [of _ "length rs"]
              exI [of _ new]) simp
qed

text \<open>
  Claim C5 says that a request with a non-empty array of custom templates never invokes
  the fetch, converts and creates exactly the supplied items and returns a summary whose
  \<^verbatim>\<open>totalAttempted\<close> is the length of the array. No fetch is made, but the rest breaks
  on an item the loop is thrown out of. With \<^verbatim>\<open>null\<close> before \<^verbatim>\<open>Promo\<close> the run
  ends with the HTTP 500 response of the outer \<^verbatim>\<open>catch\<close>: no summary, no
  \<^verbatim>\<open>totalAttempted\<close>, and \<^verbatim>\<open>Promo\<close> is never converted. With a template named by
  the object \<^verbatim>\<open>{"toString": 1}\<close> between \<^verbatim>\<open>Promo\<close> and \<^verbatim>\<open>Bare\<close>, the run ends
  the same way after \<^verbatim>\<open>Promo\<close>, and \<^verbatim>\<open>Bare\<close> is never converted.
\<close>

theorem custom_run_without_summary:
  "POST demo_env null_first_body
     = (ErrorResponse 500 ''Failed to migrate email templates''
          (JStr (err_message (type_error_read JNull ''name''))),
        demo_setup_calls)
   \<and> response_totalAttempted (fst (POST demo_env null_first_body)) = None
   \<and> fst (POST demo_env odd_name_second_body)
     = ErrorResponse 500 ''Failed to migrate email templates''
         (JStr ''Cannot convert object to primitive value'')
   \<and> create_names (snd (POST demo_env odd_name_second_body)) = [JStr ''Promo'']
   \<and> length (convert_args (snd (POST demo_env odd_name_second_body))) = 1"
  by code_simp

subsection \<open>C9: the placeholder markup of custom mode\<close>

lemma map_of_obj_set: "map_of (obj_set kvs k v) k = Some v"
  by (induction kvs) auto

lemma with_source_source: "get_prop (with_source t v) ''source'' = v"
  by (simp add: with_source_def map_of_obj_set)

lemma convert_and_create_converted:
  assumes "convertHubspotTemplate env log (with_source t src) = Inr conv"
  shows "\<exists>r. convert_and_create env opts fid t src log =
           (r, log @ [Call_convertHubspotTemplate (with_source t src),
                      Call_createEmailTemplate opts (get_prop t ''name'') (content conv) fid
                        (template_metadata conv)])"
  using assms by (auto simp: convert_and_create_def split: sum.splits)

lemma custom_step_calls:
  assumes "template_name_text env t = Inr nt"
  shows "\<exists>rs' es' r log1.
           convert_and_create env opts fid t (custom_source t nt) log = (r, log1)
         \<and> custom_step env opts fid t (rs, es, log) = Inr (rs', es', snd (custom_id env t log1))
         \<and> ((\<exists>x. rs' = rs @ [x] \<and> es' = es) \<or> (\<exists>x. rs' = rs \<and> es' = es @ [x]))"
proof -
  obtain r log1 where cc: "convert_and_create env opts fid t (custom_source t nt) log = (r, log1)"
    by (cases "convert_and_create env opts fid t (custom_source t nt) log")
  then show ?thesis using assms
    by (cases r) (auto simp: custom_step_def split: prod.splits)
qed

lemma template_name_text_string:
  "get_prop t ''name'' = JStr n \<Longrightarrow> \<not> is_nullish t \<Longrightarrow> template_name_text env t = Inr n"
  by (simp add: template_name_text_def read_prop_def)

text \<open>
  When the name of the template can be rendered, a template with neither \<^verbatim>\<open>content\<close>
  nor \<^verbatim>\<open>html\<close> is converted with the placeholder built on the rendered name (the name
  itself when it is a string) as its \<^verbatim>\<open>source\<close>, is submitted for creation when the
  conversion returns, and ends as exactly one entry.
\<close>

lemma placeholder_source:
  assumes "template_name_text env t = Inr nt"
    and "\<not> truthy (get_prop t ''content'')" and "\<not> truthy (get_prop t ''html'')"
  shows "custom_source t nt = JStr (''<p>Template: '' @ nt @ ''</p>'')
       \<and> (\<forall>n. get_prop t ''name'' = JStr n \<longrightarrow> nt = n)
       \<and> (\<exists>rs' es' new.
             custom_step env opts fid t (rs, es, log) = Inr (rs', es', log @ new)
           \<and> convert_args new = [with_source t (custom_source t nt)]
           \<and> get_prop (with_source t (custom_source t nt)) ''source'' = custom_source t nt
           \<and> ((\<exists>r. rs' = rs @ [r] \<and> es' = es) \<or> (\<exists>e. rs' = rs \<and> es' = es @ [e]))
           \<and> (\<forall>conv. convertHubspotTemplate env log (with_source t (custom_source t nt)) = Inr conv
                  \<longrightarrow> create_names new = [get_prop t ''name'']))"
proof (intro conjI)
  show "custom_source t nt = JStr (''<p>Template: '' @ nt @ ''</p>'')"
    using assms(2,3) by (simp add: custom_source_def js_or_def)
  show "\<forall>n. get_prop t ''name'' = JStr n \<longrightarrow> nt = n"
  proof (intro allI impI)
    fix n
    assume n: "get_prop t ''name'' = JStr n"
    from assms(1) have "\<not> is_nullish t"
      by (auto simp: template_name_text_def read_prop_def split: if_splits)
    from template_name_text_string [OF n this] assms(1) show "nt = n" by simp
  qed
  from custom_step_calls [OF assms(1), of opts fid log rs es] obtain rs' es' r log1 where
    cc: "convert_and_create env opts fid t (custom_source t nt) log = (r, log1)"
    and st: "custom_step env opts fid t (rs, es, log) = Inr (rs', es', snd (custom_id env t log1))"
    and en: "(\<exists>x. rs' = rs @ [x] \<and> es' = es) \<or> (\<exists>x. rs' = rs \<and> es' = es @ [x])"
    by blast
  from convert_and_create_calls [OF cc] obtain n1 where
    n1: "log1 = log @ n1" "convert_args n1 = [with_source t (custom_source t nt)]"
    by blast
  obtain cid log2 where ci: "custom_id env t log1 = (cid, log2)"
    by (cases "custom_id env t log1")
  from custom_id_calls [OF ci] obtain n2 where
    n2: "log2 = log1 @ n2" "convert_args n2 = []" "create_names n2 = []"
    by blast
  have lg: "snd (custom_id env t log1) = log @ (n1 @ n2)" using ci n1(1) n2(1) by simp
  have cr: "\<forall>conv. convertHubspotTemplate env log (with_source t (custom_source t nt)) = Inr conv
                  \<longrightarrow> create_names (n1 @ n2) = [get_prop t ''name'']"
  proof (intro allI impI)
    fix conv
    assume "convertHubspotTemplate env log (with_source t (custom_source t nt)) = Inr conv"
    from convert_and_create_converted [OF this, of opts fid] cc n1(1)
    have "n1 = [Call_convertHubspotTemplate (with_source t (custom_source t nt)),
                Call_createEmailTemplate opts (get_prop t ''name'') (content conv) fid
                  (template_metadata conv)]"
      by auto
    with n2(3) show "create_names (n1 @ n2) = [get_prop t ''name'']" by simp
  qed
  show "\<exists>rs' es' new.
             custom_step env opts fid t (rs, es, log) = Inr (rs', es', log @ new)
           \<and> convert_args new = [with_source t (custom_source t nt)]
           \<and> get_prop (with_source t (custom_source t nt)) ''source'' = custom_source t nt
           \<and> ((\<exists>r. rs' = rs @ [r] \<and> es' = es) \<or> (\<exists>e. rs' = rs \<and> es' = es @ [e]))
           \<and> (\<forall>conv. convertHubspotTemplate env log (with_source t (custom_source t nt)) = Inr conv
                  \<longrightarrow> create_names new = [get_prop t ''name''])"
    using st lg en n1(2) n2(2) cr with_source_source
    by (intro exI [of _ rs'] exI [of _ es'] exI [of _ "n1 @ n2"]) simp
qed

text \<open>
  Claim C9 says that in custom mode a template with neither \<^verbatim>\<open>content\<close> nor
  \<^verbatim>\<open>html\<close> is never skipped: it is converted with the placeholder markup and ends as a
  migrated or an error entry. The handler breaks it on a template whose name cannot be
  rendered as a string. For the single template \<^verbatim>\<open>{"name": {"toString": 1}}\<close>, which
  has neither field, the first statement of the loop body throws, the \<^verbatim>\<open>catch\<close> block
  throws again, and the run ends with the HTTP 500 response of the outer \<^verbatim>\<open>catch\<close>:
  nothing is converted and the template is in no list.
\<close>

theorem odd_name_no_entry:
  "custom_items (customTemplates odd_name_body) = Some [JObj [(''name'', JObj [(''toString'', JNum 1)])]]
   \<and> get_prop (JObj [(''name'', JObj [(''toString'', JNum 1)])]) ''content'' = JUndefined
   \<and> get_prop (JObj [(''name'', JObj [(''toString'', JNum 1)])]) ''html'' = JUndefined
   \<and> POST demo_env odd_name_body
       = (ErrorResponse 500 ''Failed to migrate email templates''
            (JStr ''Cannot convert object to primitive value''),
          demo_setup_calls)
   \<and> convert_args (snd (POST demo_env odd_name_body)) = []
   \<and> response_migrated (fst (POST demo_env odd_name_body)) = []
   \<and> response_errors_length (fst (POST demo_env odd_name_body)) = 0"
  by code_simp

subsection \<open>C10: an empty or ill-typed list of custom templates\<close>

lemma resolve_hubspot_token_customTemplates:
  "resolve_hubspot_token env (body\<lparr>customTemplates := v\<rparr>) = resolve_hubspot_token env body"
  by (intro ext) (simp add: resolve_hubspot_token_def)

lemma resolve_sfmc_token_customTemplates:
  "resolve_sfmc_token env (body\<lparr>customTemplates := v\<rparr>) = resolve_sfmc_token env body"
  by (intro ext) (simp add: resolve_sfmc_token_def)

lemma resolve_folder_customTemplates:
  "resolve_folder env (body\<lparr>customTemplates := v\<rparr>) = resolve_folder env body"
  by (intro ext) (simp add: resolve_folder_def)

lemma sfmc_opts_customTemplates:
  "sfmc_opts (body\<lparr>customTemplates := v\<rparr>) = sfmc_opts body"
  by (intro ext) (simp add: sfmc_opts_def)

lemma prepare_customTemplates:
  "prepare env (body\<lparr>customTemplates := v\<rparr>) = prepare env body"
  by (simp add: prepare_def resolve_hubspot_token_customTemplates
                resolve_sfmc_token_customTemplates resolve_folder_customTemplates
                sfmc_opts_customTemplates
           cong: option.case_cong if_cong prod.case_cong sum.case_cong)

lemma custom_items_none: "v = JArr [] \<or> \<not> is_array v \<Longrightarrow> custom_items v = None"
  by (cases v) auto

text \<open>
  Claim C10. When \<^verbatim>\<open>customTemplates\<close> is an empty array or not an array, the whole run
  (the response and the calls) is the run of the same request without
  \<^verbatim>\<open>customTemplates\<close>; once the tokens and the folder are resolved it is the fetch
  mode, which starts the endpoint chain.
\<close>

theorem empty_custom_templates_fetch:
  assumes "v = JArr [] \<or> \<not> is_array v"
  shows "POST env (body\<lparr>customTemplates := v\<rparr>) = POST env (body\<lparr>customTemplates := JUndefined\<rparr>)
       \<and> (prepare env body = (Inr (tok, opts, fid), log0)
          \<longrightarrow> POST env (body\<lparr>customTemplates := v\<rparr>)
                = fetch_mode env opts fid (limit_or_default body) tok log0)"
  using custom_items_none [OF assms]
  by (simp add: POST_def prepare_customTemplates migrate_def limit_or_default_def
           split: prod.splits sum.splits)

text \<open>An empty array and a string, in the example: the first endpoint is called.\<close>

theorem empty_custom_templates_fetch_witness:
  "POST demo_env (demo_body\<lparr>customTemplates := JArr []\<rparr>)
     = POST demo_env (demo_body\<lparr>customTemplates := JUndefined\<rparr>)
   \<and> POST demo_env (demo_body\<lparr>customTemplates := JStr ''<p>x</p>''\<rparr>)
     = POST demo_env (demo_body\<lparr>customTemplates := JUndefined\<rparr>)
   \<and> axios_urls (snd (POST demo_env (demo_body\<lparr>customTemplates := JArr []\<rparr>))) = [cms_url]"
proof -
  have a: "JArr [] = JArr [] \<or> \<not> is_array (JArr [])" by simp
  have b: "JStr ''<p>x</p>'' = JArr [] \<or> \<not> is_array (JStr ''<p>x</p>'')" by simp
  have c: "axios_urls (snd (POST demo_env (demo_body\<lparr>customTemplates := JUndefined\<rparr>))) = [cms_url]"
    by code_simp
  from empty_custom_templates_fetch [OF a, of demo_env demo_body]
       empty_custom_templates_fetch [OF b, of demo_env demo_body] c
  show ?thesis by simp
qed

subsection \<open>C3: the markup of a fetched template\<close>









subsection \<open>C2: the fallback chain of the fetch\<close>

lemma try_endpoint_log: "snd (try_endpoint env url ex tok log) = log @ [Call_axios_get url tok]"
  by (simp add: try_endpoint_def)

lemma calls_to_simps:
  "calls_to tok 0 = []"
  "calls_to tok (Suc 0) = [Call_axios_get cms_url tok]"
  "calls_to tok (Suc (Suc 0)) = [Call_axios_get cms_url tok, Call_axios_get v3_url tok]"
  "calls_to tok (Suc (Suc (Suc 0)))
     = [Call_axios_get cms_url tok, Call_axios_get v3_url tok, Call_axios_get v1_url tok]"
  "calls_to tok (Suc (Suc (Suc (Suc 0))))
     = [Call_axios_get cms_url tok, Call_axios_get v3_url tok, Call_axios_get v1_url tok,
        Call_axios_get public_url tok]"
  by (simp_all add: calls_to_def endpoint_chain_def)

lemma attempt_simps:
  "attempt env tok log 0 = fst (try_endpoint env cms_url (data_field ''objects'') tok log)"
  "attempt env tok log (Suc 0)
     = fst (try_endpoint env v3_url (data_field ''results'') tok
              (log @ [Call_axios_get cms_url tok]))"
  "attempt env tok log (Suc (Suc 0))
     = fst (try_endpoint env v1_url data_itself tok
              (log @ [Call_axios_get cms_url tok, Call_axios_get v3_url tok]))"
  "attempt env tok log (Suc (Suc (Suc 0)))
     = fst (try_endpoint env public_url (data_field ''objects'') tok
              (log @ [Call_axios_get cms_url tok, Call_axios_get v3_url tok,
                      Call_axios_get v1_url tok]))"
  by (simp_all add: attempt_def endpoint_chain_def calls_to_simps)

lemma less_4_cases: "(i::nat) < 4 \<Longrightarrow> i = 0 \<or> i = Suc 0 \<or> i = Suc (Suc 0) \<or> i = Suc (Suc (Suc 0))"
  by arith

lemma fetch_templates_unfold:
  "fetch_templates env tok log =
     (if \<not> failed (attempt env tok log 0)
        then (attempt env tok log 0, log @ calls_to tok (Suc 0))
      else if \<not> failed (attempt env tok log (Suc 0))
        then (attempt env tok log (Suc 0), log @ calls_to tok (Suc (Suc 0)))
      else if \<not> failed (attempt env tok log (Suc (Suc 0)))
        then (attempt env tok log (Suc (Suc 0)), log @ calls_to tok (Suc (Suc (Suc 0))))
      else (attempt env tok log (Suc (Suc (Suc 0))),
            log @ calls_to tok (Suc (Suc (Suc (Suc 0))))))"
proof -
  obtain r0 l0 where t0: "try_endpoint env cms_url (data_field ''objects'') tok log = (r0, l0)"
    by (cases "try_endpoint env cms_url (data_field ''objects'') tok log")
  with try_endpoint_log [of env cms_url "data_field ''objects''" tok log]
  have l0: "l0 = log @ [Call_axios_get cms_url tok]" by simp
  obtain r1 l1 where t1: "try_endpoint env v3_url (data_field ''results'') tok l0 = (r1, l1)"
    by (cases "try_endpoint env v3_url (data_field ''results'') tok l0")
  with try_endpoint_log [of env v3_url "data_field ''results''" tok l0] l0
  have l1: "l1 = log @ [Call_axios_get cms_url tok, Call_axios_get v3_url tok]" by simp
  obtain r2 l2 where t2: "try_endpoint env v1_url data_itself tok l1 = (r2, l2)"
    by (cases "try_endpoint env v1_url data_itself tok l1")
  with try_endpoint_log [of env v1_url data_itself tok l1] l1
  have l2: "l2 = log @ [Call_axios_get cms_url tok, Call_axios_get v3_url tok,
                        Call_axios_get v1_url tok]" by simp
  obtain r3 l3 where t3: "try_endpoint env public_url (data_field ''objects'') tok l2 = (r3, l3)"
    by (cases "try_endpoint env public_url (data_field ''objects'') tok l2")
  with try_endpoint_log [of env public_url "data_field ''objects''" tok l2] l2
  have l3: "l3 = log @ [Call_axios_get cms_url tok, Call_axios_get v3_url tok,
                        Call_axios_get v1_url tok, Call_axios_get public_url tok]" by simp
  have a: "attempt env tok log 0 = r0" "attempt env tok log (Suc 0) = r1"
          "attempt env tok log (Suc (Suc 0)) = r2" "attempt env tok log (Suc (Suc (Suc 0))) = r3"
    using t0 t1 t2 t3 l0 l1 l2 by (simp_all add: attempt_simps)
  show ?thesis
    unfolding a calls_to_simps
    using t0 t1 t2 t3 l0 l1 l2 l3
    by (cases r0; cases r1; cases r2; cases r3) (simp_all add: fetch_templates_def)
qed

lemma fetch_templates_chain:
  "\<exists>k<4. (\<forall>i<k. failed (attempt env tok log i))
        \<and> fetch_templates env tok log = (attempt env tok log k, log @ calls_to tok (Suc k))
        \<and> (failed (attempt env tok log k) \<longrightarrow> k = 3)"
proof -
  consider (a) "\<not> failed (attempt env tok log 0)"
    | (b) "failed (attempt env tok log 0)" "\<not> failed (attempt env tok log (Suc 0))"
    | (c) "failed (attempt env tok log 0)" "failed (attempt env tok log (Suc 0))"
          "\<not> failed (attempt env tok log (Suc (Suc 0)))"
    | (d) "failed (attempt env tok log 0)" "failed (attempt env tok log (Suc 0))"
          "failed (attempt env tok log (Suc (Suc 0)))"
    by blast
  then show ?thesis
  proof cases
    case a
    then show ?thesis
      by (intro exI [of _ 0]) (simp add: fetch_templates_unfold)
  next
    case b
    then show ?thesis
      by (intro exI [of _ "Suc 0"]) (simp add: fetch_templates_unfold)
  next
    case c
    then show ?thesis
      by (intro exI [of _ "Suc (Suc 0)"]) (auto simp: fetch_templates_unfold less_Suc_eq)
  next
    case d
    then show ?thesis
      by (intro exI [of _ "Suc (Suc (Suc 0))"])
         (auto simp: fetch_templates_unfold less_Suc_eq numeral_3_eq_3)
  qed
qed

lemma fetch_templates_all_failed:
  "(\<exists>e log'. fetch_templates env tok log = (Inl e, log')) = (\<forall>i<4. failed (attempt env tok log i))"
proof
  assume "\<exists>e log'. fetch_templates env tok log = (Inl e, log')"
  then obtain e log' where f: "fetch_templates env tok log = (Inl e, log')" by blast
  then have "failed (attempt env tok log 0) \<and> failed (attempt env tok log (Suc 0))
           \<and> failed (attempt env tok log (Suc (Suc 0)))
           \<and> failed (attempt env tok log (Suc (Suc (Suc 0))))"
    by (auto simp: fetch_templates_unfold split: if_splits)
  then show "\<forall>i<4. failed (attempt env tok log i)"
    by (auto dest: less_4_cases)
next
  assume a: "\<forall>i<4. failed (attempt env tok log i)"
  then have "failed (attempt env tok log 0)" "failed (attempt env tok log (Suc 0))"
    "failed (attempt env tok log (Suc (Suc 0)))" "failed (attempt env tok log (Suc (Suc (Suc 0))))"
    by simp_all
  then show "\<exists>e log'. fetch_templates env tok log = (Inl e, log')"
    by (cases "attempt env tok log (Suc (Suc (Suc 0)))") (simp_all add: fetch_templates_unfold)
qed

lemma fetch_templates_failure:
  assumes "fetch_templates env tok log = (Inl e, log')"
  shows "(\<forall>i<4. failed (attempt env tok log i)) \<and> attempt env tok log 3 = Inl e
       \<and> log' = log @ calls_to tok 4"
proof -
  from assms fetch_templates_all_failed [of env tok log]
  have all: "\<forall>i<4. failed (attempt env tok log i)" by blast
  then have "failed (attempt env tok log 0)" "failed (attempt env tok log (Suc 0))"
    "failed (attempt env tok log (Suc (Suc 0)))"
    by simp_all
  with assms have "attempt env tok log (Suc (Suc (Suc 0))) = Inl e"
    "log' = log @ calls_to tok (Suc (Suc (Suc (Suc 0))))"
    by (simp_all add: fetch_templates_unfold)
  with all show ?thesis by (simp add: numeral_3_eq_3 numeral_eq_Suc)
qed


lemma hubspot_token_from_store_messages:
  "hubspot_token_from_store env uid log = (Inl r, log') \<Longrightarrow>
     r = ErrorResponse 400 ''Missing HubSpot token. Please reconnect to HubSpot.'' JUndefined
   \<or> r = ErrorResponse 500 ''Database error retrieving HubSpot tokens.'' JUndefined"
  by (auto simp: hubspot_token_from_store_def split: sum.splits option.splits)

lemma resolve_hubspot_token_messages:
  "resolve_hubspot_token env body uid log = (Inl r, log') \<Longrightarrow>
     r = ErrorResponse 400 ''Missing HubSpot token. Please reconnect to HubSpot.'' JUndefined
   \<or> r = ErrorResponse 500 ''Database error retrieving HubSpot tokens.'' JUndefined"
  by (auto simp: resolve_hubspot_token_def split: option.splits if_splits
           dest: hubspot_token_from_store_messages)

lemma resolve_sfmc_token_messages:
  "resolve_sfmc_token env body uid log = (Inl r, log') \<Longrightarrow>
     r = ErrorResponse 400 ''Failed to authenticate with SFMC using provided credentials.'' JUndefined
   \<or> r = ErrorResponse 400 ''Missing SFMC credentials. Please connect SFMC.'' JUndefined
   \<or> r = ErrorResponse 400 ''No SFMC credentials provided or found in database.'' JUndefined"
  by (auto simp: resolve_sfmc_token_def split: sum.splits option.splits)

lemma prepare_Inl_cases:
  assumes "prepare env body = (Inl r, log)"
  shows "r = ErrorResponse 400 ''User ID is required'' JUndefined
       \<or> (\<exists>uid l l'. resolve_hubspot_token env body uid l = (Inl r, l'))
       \<or> (\<exists>uid l l'. resolve_sfmc_token env body uid l = (Inl r, l'))
       \<or> (\<exists>opts l l'. resolve_folder env body opts l = (Inl r, l'))"
proof (cases "userId body")
  case None
  with assms show ?thesis by (simp add: prepare_def)
next
  case (Some uid)
  show ?thesis
  proof (cases "uid = []")
    case True
    with assms Some show ?thesis by (simp add: prepare_def)
  next
    case False
    obtain r1 log1 where h: "resolve_hubspot_token env body uid [] = (r1, log1)"
      by (cases "resolve_hubspot_token env body uid []")
    show ?thesis
    proof (cases r1)
      case (Inl a)
      with assms Some False h have "r = a" by (simp add: prepare_def)
      with h Inl show ?thesis by blast
    next
      case (Inr tok)
      obtain r2 log2 where s: "resolve_sfmc_token env body uid log1 = (r2, log2)"
        by (cases "resolve_sfmc_token env body uid log1")
      show ?thesis
      proof (cases r2)
        case (Inl a)
        with assms Some False h Inr s have "r = a" by (simp add: prepare_def)
        with s Inl show ?thesis by blast
      next
        case st: (Inr stok)
        obtain r3 log3 where f: "resolve_folder env body (sfmc_opts body stok) log2 = (r3, log3)"
          by (cases "resolve_folder env body (sfmc_opts body stok) log2")
        show ?thesis
        proof (cases r3)
          case (Inl a)
          with assms Some False h Inr s st f have "r = a" by (simp add: prepare_def)
          with f Inl show ?thesis by blast
        next
          case fd: (Inr fid)
          with assms Some False h Inr s st f show ?thesis by (simp add: prepare_def)
        qed
      qed
    qed
  qed
qed

lemma resolve_hubspot_token_not_fetch_failed:
  "resolve_hubspot_token env body uid l = (Inl (ErrorResponse st msg d), l') \<Longrightarrow>
     msg \<noteq> fetch_failed_message"
  by (drule resolve_hubspot_token_messages) (auto simp: fetch_failed_message_def)

lemma resolve_sfmc_token_not_fetch_failed:
  "resolve_sfmc_token env body uid l = (Inl (ErrorResponse st msg d), l') \<Longrightarrow>
     msg \<noteq> fetch_failed_message"
  by (drule resolve_sfmc_token_messages) (auto simp: fetch_failed_message_def)

lemma resolve_folder_not_fetch_failed:
  "resolve_folder env body opts l = (Inl (ErrorResponse st msg d), l') \<Longrightarrow>
     msg \<noteq> fetch_failed_message"
  by (drule resolve_folder_response) (auto simp: fetch_failed_message_def folder_failed_def)

lemma prepare_not_fetch_failed:
  assumes "prepare env body = (Inl (ErrorResponse st msg d), log)"
  shows "msg \<noteq> fetch_failed_message"
proof -
  from prepare_Inl_cases [OF assms]
  consider (u) "ErrorResponse st msg d = ErrorResponse 400 ''User ID is required'' JUndefined"
    | (h) uid l l' where "resolve_hubspot_token env body uid l = (Inl (ErrorResponse st msg d), l')"
    | (s) uid l l' where "resolve_sfmc_token env body uid l = (Inl (ErrorResponse st msg d), l')"
    | (f) opts l l' where "resolve_folder env body opts l = (Inl (ErrorResponse st msg d), l')"
    by blast
  then show ?thesis
  proof cases
    case u
    then show ?thesis by (simp add: fetch_failed_message_def)
  next
    case h
    then show ?thesis by (rule resolve_hubspot_token_not_fetch_failed)
  next
    case s
    then show ?thesis by (rule resolve_sfmc_token_not_fetch_failed)
  next
    case f
    then show ?thesis by (rule resolve_folder_not_fetch_failed)
  qed
qed

lemma custom_mode_not_fetch_failed:
  assumes "custom_mode env opts fid ts log0 = (ErrorResponse st msg d, log)"
  shows "msg \<noteq> fetch_failed_message"
  using assms
  by (auto simp: custom_mode_def migration_failed_def fetch_failed_message_def
           split: sum.splits prod.splits)

lemma migrate_fetched_not_fetch_failed:
  assumes "migrate_fetched env opts fid lim fetched log0 = (ErrorResponse st msg d, log)"
  shows "msg \<noteq> fetch_failed_message"
  using assms
  by (auto simp: migrate_fetched_def migration_failed_def fetch_failed_message_def no_templates_def
           split: sum.splits prod.splits if_splits)

lemma fetch_mode_fetch_failed:
  assumes "fetch_mode env opts fid lim tok log0 = (ErrorResponse st fetch_failed_message d, lg)"
  shows "\<exists>e. fetch_templates env tok (log0 @ [Call_createHubspotClient tok]) = (Inl e, lg)
           \<and> st = 500 \<and> d = js_or (err_response_data e) (JStr (err_message e))"
proof (cases "createHubspotClient env log0 tok")
  case (Inl e)
  with assms show ?thesis
    by (simp add: fetch_mode_def migration_failed_def fetch_failed_message_def)
next
  case (Inr u)
  obtain r l where f: "fetch_templates env tok (log0 @ [Call_createHubspotClient tok]) = (r, l)"
    by (cases "fetch_templates env tok (log0 @ [Call_createHubspotClient tok])")
  show ?thesis
  proof (cases r)
    case (Inl e)
    with assms Inr f show ?thesis by (simp add: fetch_mode_def fetch_failed_def)
  next
    case r: (Inr fetched)
    with assms Inr f
    have "migrate_fetched env opts fid lim fetched l = (ErrorResponse st fetch_failed_message d, lg)"
      by (simp add: fetch_mode_def)
    from migrate_fetched_not_fetch_failed [OF this] show ?thesis by simp
  qed
qed

lemma POST_fetch_failed:
  assumes "POST env body = (ErrorResponse st fetch_failed_message d, lg)"
  shows "\<exists>tok opts fid log0 e.
           prepare env body = (Inr (tok, opts, fid), log0)
         \<and> fetch_templates env tok (log0 @ [Call_createHubspotClient tok]) = (Inl e, lg)
         \<and> st = 500 \<and> d = js_or (err_response_data e) (JStr (err_message e))"
proof -
  from POST_cases [OF assms] prepare_not_fetch_failed obtain tok opts fid log0 where
    pr: "prepare env body = (Inr (tok, opts, fid), log0)"
    and mg: "migrate env body tok opts fid log0 = (ErrorResponse st fetch_failed_message d, lg)"
    by blast
  have "fetch_mode env opts fid (limit_or_default body) tok log0
          = (ErrorResponse st fetch_failed_message d, lg)"
  proof (cases "custom_items (customTemplates body)")
    case None
    with mg show ?thesis by (simp add: migrate_def)
  next
    case (Some ts)
    with mg have "custom_mode env opts fid ts log0 = (ErrorResponse st fetch_failed_message d, lg)"
      by (simp add: migrate_def)
    from custom_mode_not_fetch_failed [OF this] show ?thesis by simp
  qed
  from fetch_mode_fetch_failed [OF this] pr show ?thesis by blast
qed

lemma axios_urls_calls_to_4: "axios_urls (calls_to tok 4) = [cms_url, v3_url, v1_url, public_url]"
  by (simp add: calls_to_def endpoint_chain_def)

text \<open>
  Claim C2 says that the run fails with an HTTP 500 response only if all four endpoints
  fail. The handler answers 500 in other ways too. When the first two endpoints fail and
  the third answers with an object that is not a list, the fetch has succeeded at the third
  endpoint and the fourth is never called, \<^verbatim>\<open>emailTemplates.slice\<close> throws, and the
  outer \<^verbatim>\<open>catch\<close> answers 500. When the credential store fails on the HubSpot lookup the
  run answers 500 before any endpoint is called.
\<close>

theorem other_server_error_counterexample:
  "fst (POST v1_object_env demo_body)
     = ErrorResponse 500 ''Failed to migrate email templates''
         (JStr ''emailTemplates.slice is not a function'')
   \<and> http_status (fst (POST v1_object_env demo_body)) = 500
   \<and> axios_urls (snd (POST v1_object_env demo_body)) = [cms_url, v3_url, v1_url]
   \<and> attempt v1_object_env ''hubspot-token''
         (demo_setup_calls @ [Call_createHubspotClient ''hubspot-token'']) 2
       = Inr (JObj [(''message'', JStr ''ok'')])
   \<and> http_status (fst (POST store_down_env demo_body)) = 500
   \<and> axios_urls (snd (POST store_down_env demo_body)) = []"
  by code_simp

text \<open>
  Claim C2, amended to name the fetch failure response. The fetch tries the four endpoints
  in the fixed order CMS, marketing v3, marketing v1, email public, going to the next one
  exactly when the current one fails (the request throws, or reading the templates out of
  the response throws): it stops at some endpoint \<open>k\<close>, every endpoint before \<open>k\<close> has
  failed, the calls made are the requests to the endpoints up to \<open>k\<close> in order, the
  result is the answer of endpoint \<open>k\<close>, and that answer is a failure only when \<open>k\<close> is
  the fourth endpoint. A run ends with the fetch failure response (the error
  \<^verbatim>\<open>Failed to fetch templates from HubSpot API. ...\<close>) only if all four endpoints
  failed;
  the response then has status 500 and its \<^verbatim>\<open>details\<close> are those of the fourth
  endpoint's error (\<^verbatim>\<open>error.response?.data || error.message\<close>). Conversely, when all
  four fail (and \<^verbatim>\<open>createHubspotClient\<close> returned), that is the response.
\<close>

theorem endpoint_fallback:
  "(\<exists>k<4. (\<forall>i<k. failed (attempt env tok log i))
        \<and> fetch_templates env tok log = (attempt env tok log k, log @ calls_to tok (Suc k))
        \<and> (failed (attempt env tok log k) \<longrightarrow> k = 3))
   \<and> axios_urls (calls_to tok 4) = [cms_url, v3_url, v1_url, public_url]
   \<and> (POST env body = (ErrorResponse st fetch_failed_message d, lg)
      \<longrightarrow> st = 500
        \<and> (\<exists>tok' opts fid log0 e.
              prepare env body = (Inr (tok', opts, fid), log0)
            \<and> (\<forall>i<4. failed (attempt env tok' (log0 @ [Call_createHubspotClient tok']) i))
            \<and> attempt env tok' (log0 @ [Call_createHubspotClient tok']) 3 = Inl e
            \<and> d = js_or (err_response_data e) (JStr (err_message e))
            \<and> lg = log0 @ [Call_createHubspotClient tok'] @ calls_to tok' 4))
   \<and> ((\<forall>i<4. failed (attempt env tok (log0 @ [Call_createHubspotClient tok]) i))
        \<and> createHubspotClient env log0 tok = Inr u
      \<longrightarrow> (\<exists>e. attempt env tok (log0 @ [Call_createHubspotClient tok]) 3 = Inl e
             \<and> fetch_mode env opts fid lim tok log0
                 = (ErrorResponse 500 fetch_failed_message
                      (js_or (err_response_data e) (JStr (err_message e))),
                    log0 @ [Call_createHubspotClient tok] @ calls_to tok 4)))"
proof (intro conjI impI)
  show "\<exists>k<4. (\<forall>i<k. failed (attempt env tok log i))
        \<and> fetch_templates env tok log = (attempt env tok log k, log @ calls_to tok (Suc k))
        \<and> (failed (attempt env tok log k) \<longrightarrow> k = 3)"
    by (rule fetch_templates_chain)
  show "axios_urls (calls_to tok 4) = [cms_url, v3_url, v1_url, public_url]"
    by (rule axios_urls_calls_to_4)
next
  assume p: "POST env body = (ErrorResponse st fetch_failed_message d, lg)"
  from POST_fetch_failed [OF p] show "st = 500" by blast
  from POST_fetch_failed [OF p] obtain tok' opts fid log0 e where
    pr: "prepare env body = (Inr (tok', opts, fid), log0)"
    and ft: "fetch_templates env tok' (log0 @ [Call_createHubspotClient tok']) = (Inl e, lg)"
    and d: "d = js_or (err_response_data e) (JStr (err_message e))"
    by blast
  from fetch_templates_failure [OF ft] pr d
  show "\<exists>tok' opts fid log0 e.
              prepare env body = (Inr (tok', opts, fid), log0)
            \<and> (\<forall>i<4. failed (attempt env tok' (log0 @ [Call_createHubspotClient tok']) i))
            \<and> attempt env tok' (log0 @ [Call_createHubspotClient tok']) 3 = Inl e
            \<and> d = js_or (err_response_data e) (JStr (err_message e))
            \<and> lg = log0 @ [Call_createHubspotClient tok'] @ calls_to tok' 4"
    by (intro exI [of _ tok'] exI [of _ opts] exI [of _ fid] exI [of _ log0] exI [of _ e]) simp
next
  assume a: "(\<forall>i<4. failed (attempt env tok (log0 @ [Call_createHubspotClient tok]) i))
        \<and> createHubspotClient env log0 tok = Inr u"
  then have "\<forall>i<4. failed (attempt env tok (log0 @ [Call_createHubspotClient tok]) i)" by blast
  with fetch_templates_all_failed [of env tok "log0 @ [Call_createHubspotClient tok]"]
  have "\<exists>e log'. fetch_templates env tok (log0 @ [Call_createHubspotClient tok]) = (Inl e, log')"
    by blast
  then obtain e log' where
    ft: "fetch_templates env tok (log0 @ [Call_createHubspotClient tok]) = (Inl e, log')"
    by blast
  from fetch_templates_failure [OF ft] have
    e: "attempt env tok (log0 @ [Call_createHubspotClient tok]) 3 = Inl e"
    and l: "log' = (log0 @ [Call_createHubspotClient tok]) @ calls_to tok 4"
    by simp_all
  from a ft l have "fetch_mode env opts fid lim tok log0
                 = (ErrorResponse 500 fetch_failed_message
                      (js_or (err_response_data e) (JStr (err_message e))),
                    log0 @ [Call_createHubspotClient tok] @ calls_to tok 4)"
    by (simp add: fetch_mode_def fetch_failed_def)
  with e show "\<exists>e. attempt env tok (log0 @ [Call_createHubspotClient tok]) 3 = Inl e
             \<and> fetch_mode env opts fid lim tok log0
                 = (ErrorResponse 500 fetch_failed_message
                      (js_or (err_response_data e) (JStr (err_message e))),
                    log0 @ [Call_createHubspotClient tok] @ calls_to tok 4)"
    by blast
qed

text \<open>
  With every endpoint failing the run ends with the message of the fourth; in the other
  example the first endpoint answers and no other is called.
\<close>

lemma failing_fetch_run:
  "POST failing_fetch_env demo_body
     = (ErrorResponse 500 fetch_failed_message (JStr (''failed: '' @ public_url)),
        demo_setup_calls @ [Call_createHubspotClient ''hubspot-token'']
          @ calls_to ''hubspot-token'' 4)"
  by code_simp

lemma demo_first_endpoint: "\<not> failed (attempt demo_env ''hubspot-token'' [] 0)"
  by code_simp

lemma axios_urls_demo_setup_calls: "axios_urls demo_setup_calls = []"
  by code_simp

theorem endpoint_fallback_witness:
  "POST failing_fetch_env demo_body
     = (ErrorResponse 500 fetch_failed_message (JStr (''failed: '' @ public_url)),
        demo_setup_calls @ [Call_createHubspotClient ''hubspot-token'']
          @ calls_to ''hubspot-token'' 4)
   \<and> axios_urls (snd (POST failing_fetch_env demo_body)) = [cms_url, v3_url, v1_url, public_url]
   \<and> fetch_templates demo_env ''hubspot-token'' []
       = (attempt demo_env ''hubspot-token'' [] 0, calls_to ''hubspot-token'' 1)"
proof -
  define tk where "tk = ''hubspot-token''"
  define dd where "dd = JStr (''failed: '' @ public_url)"
  define lg where "lg = demo_setup_calls @ [Call_createHubspotClient tk] @ calls_to tk 4"
  have run: "POST failing_fetch_env demo_body = (ErrorResponse 500 fetch_failed_message dd, lg)"
    unfolding tk_def dd_def lg_def by (rule failing_fetch_run)
  have ok: "\<not> failed (attempt demo_env tk [] 0)"
    unfolding tk_def by (rule demo_first_endpoint)
  note c = axios_urls_demo_setup_calls
  note th = endpoint_fallback [where env = demo_env and tok = tk and log = "[]"]
  from th [THEN conjunct1] obtain k where k: "k < 4" "\<forall>i<k. failed (attempt demo_env tk [] i)"
    "fetch_templates demo_env tk [] = (attempt demo_env tk [] k, [] @ calls_to tk (Suc k))"
    by blast
  from k(2) ok have "k = 0" by (cases k) auto
  with k(3) have a: "fetch_templates demo_env tk [] = (attempt demo_env tk [] 0, calls_to tk 1)"
    by simp
  from th [THEN conjunct2, THEN conjunct1]
  have b: "axios_urls (calls_to tk 4) = [cms_url, v3_url, v1_url, public_url]" .
  note th2 = endpoint_fallback [where env = failing_fetch_env and body = demo_body
      and st = 500 and d = dd and lg = lg]
  from th2 [THEN conjunct2, THEN conjunct2, THEN conjunct1, THEN mp, OF run]
  obtain tok' opts fid log0 e where
    "prepare failing_fetch_env demo_body = (Inr (tok', opts, fid), log0)"
    "attempt failing_fetch_env tok' (log0 @ [Call_createHubspotClient tok']) 3 = Inl e"
    "dd = js_or (err_response_data e) (JStr (err_message e))"
    by blast
  have "axios_urls (snd (POST failing_fetch_env demo_body)) = [cms_url, v3_url, v1_url, public_url]"
    using run b c by (simp add: lg_def)
  with run a show ?thesis by (simp add: tk_def dd_def lg_def)
qed

subsection \<open>C7: credentials from the store\<close>

lemma POST_prepare_failed: "prepare env body = (Inl r, log) \<Longrightarrow> POST env body = (r, log)"
  by (simp add: POST_def)

lemma prepare_hubspot_failed:
  assumes "userId body = Some uid" and "uid \<noteq> []"
    and "resolve_hubspot_token env body uid [] = (Inl r, log)"
  shows "prepare env body = (Inl r, log)"
  using assms by (simp add: prepare_def)

lemma prepare_sfmc_failed:
  assumes "userId body = Some uid" and "uid \<noteq> []"
    and "resolve_hubspot_token env body uid [] = (Inr tok, log1)"
    and "resolve_sfmc_token env body uid log1 = (Inl r, log)"
  shows "prepare env body = (Inl r, log)"
  using assms by (simp add: prepare_def)

lemma resolve_hubspot_token_store:
  "\<not> truthy_str (hubspotToken body) \<Longrightarrow>
     resolve_hubspot_token env body uid log = hubspot_token_from_store env uid log"
  by (cases "hubspotToken body") (simp_all add: resolve_hubspot_token_def)

text \<open>
  Claim C7 says that a missing stored credential and a failure of the credential store,
  for HubSpot or for SFMC, all end the run with an HTTP 400 response. When the store
  throws while the HubSpot token is looked up, the handler answers with status 500
  (line 47).
\<close>

theorem store_failure_counterexample:
  "hubspotToken demo_body = None
   \<and> getIntegrationTokens store_down_env [] ''u1'' ''hubspot''
       = Inl (JsError ''store unavailable'' JUndefined)
   \<and> POST store_down_env demo_body
       = (ErrorResponse 500 ''Database error retrieving HubSpot tokens.'' JUndefined,
          [Call_getIntegrationTokens ''u1'' ''hubspot''])
   \<and> http_status (fst (POST store_down_env demo_body)) = 500"
  by code_simp

text \<open>
  Claim C7, amended. For a run that takes a credential from the store, a missing record
  and a failure of the store both end the run at once with an error response and no
  summary, after the lookup and with no further call, with a distinct message for each
  of the four cases. The status is 400 for a missing HubSpot record, for a missing SFMC
  record and for a failure of the store on the SFMC lookup; it is 500 for a failure of
  the store on the HubSpot lookup.
\<close>

theorem stored_credentials_errors:
  assumes "userId body = Some uid" and "uid \<noteq> []"
  shows "(\<not> truthy_str (hubspotToken body) \<and> getIntegrationTokens env [] uid ''hubspot'' = Inr None
          \<longrightarrow> POST env body =
                (ErrorResponse 400 ''Missing HubSpot token. Please reconnect to HubSpot.'' JUndefined,
                 [Call_getIntegrationTokens uid ''hubspot'']))
       \<and> (\<not> truthy_str (hubspotToken body) \<and> getIntegrationTokens env [] uid ''hubspot'' = Inl e
          \<longrightarrow> POST env body =
                (ErrorResponse 500 ''Database error retrieving HubSpot tokens.'' JUndefined,
                 [Call_getIntegrationTokens uid ''hubspot'']))
       \<and> (resolve_hubspot_token env body uid [] = (Inr tok, log1)
            \<and> direct_credentials (sfmcCredentials body) = None
            \<and> getIntegrationTokens env log1 uid ''sfmc'' = Inr None
          \<longrightarrow> POST env body =
                (ErrorResponse 400 ''Missing SFMC credentials. Please connect SFMC.'' JUndefined,
                 log1 @ [Call_getIntegrationTokens uid ''sfmc'']))
       \<and> (resolve_hubspot_token env body uid [] = (Inr tok, log1)
            \<and> direct_credentials (sfmcCredentials body) = None
            \<and> getIntegrationTokens env log1 uid ''sfmc'' = Inl e
          \<longrightarrow> POST env body =
                (ErrorResponse 400 ''No SFMC credentials provided or found in database.'' JUndefined,
                 log1 @ [Call_getIntegrationTokens uid ''sfmc'']))
       \<and> distinct [''Missing HubSpot token. Please reconnect to HubSpot.'',
                   ''Database error retrieving HubSpot tokens.'',
                   ''Missing SFMC credentials. Please connect SFMC.'',
                   ''No SFMC credentials provided or found in database.'']"
proof (intro conjI impI)
  assume a: "\<not> truthy_str (hubspotToken body) \<and> getIntegrationTokens env [] uid ''hubspot'' = Inr None"
  then have "resolve_hubspot_token env body uid [] =
               (Inl (ErrorResponse 400 ''Missing HubSpot token. Please reconnect to HubSpot.'' JUndefined),
                [Call_getIntegrationTokens uid ''hubspot''])"
    by (simp add: resolve_hubspot_token_store hubspot_token_from_store_def)
  from prepare_hubspot_failed [OF assms this]
  show "POST env body =
                (ErrorResponse 400 ''Missing HubSpot token. Please reconnect to HubSpot.'' JUndefined,
                 [Call_getIntegrationTokens uid ''hubspot''])"
    by (rule POST_prepare_failed)
next
  assume a: "\<not> truthy_str (hubspotToken body) \<and> getIntegrationTokens env [] uid ''hubspot'' = Inl e"
  then have "resolve_hubspot_token env body uid [] =
               (Inl (ErrorResponse 500 ''Database error retrieving HubSpot tokens.'' JUndefined),
                [Call_getIntegrationTokens uid ''hubspot''])"
    by (simp add: resolve_hubspot_token_store hubspot_token_from_store_def)
  from prepare_hubspot_failed [OF assms this]
  show "POST env body =
                (ErrorResponse 500 ''Database error retrieving HubSpot tokens.'' JUndefined,
                 [Call_getIntegrationTokens uid ''hubspot''])"
    by (rule POST_prepare_failed)
next
  assume a: "resolve_hubspot_token env body uid [] = (Inr tok, log1)
            \<and> direct_credentials (sfmcCredentials body) = None
            \<and> getIntegrationTokens env log1 uid ''sfmc'' = Inr None"
  then have h: "resolve_hubspot_token env body uid [] = (Inr tok, log1)" by simp
  from a have "resolve_sfmc_token env body uid log1 =
               (Inl (ErrorResponse 400 ''Missing SFMC credentials. Please connect SFMC.'' JUndefined),
                log1 @ [Call_getIntegrationTokens uid ''sfmc''])"
    by (simp add: resolve_sfmc_token_def)
  from prepare_sfmc_failed [OF assms h this]
  show "POST env body =
                (ErrorResponse 400 ''Missing SFMC credentials. Please connect SFMC.'' JUndefined,
                 log1 @ [Call_getIntegrationTokens uid ''sfmc''])"
    by (rule POST_prepare_failed)
next
  assume a: "resolve_hubspot_token env body uid [] = (Inr tok, log1)
            \<and> direct_credentials (sfmcCredentials body) = None
            \<and> getIntegrationTokens env log1 uid ''sfmc'' = Inl e"
  then have h: "resolve_hubspot_token env body uid [] = (Inr tok, log1)" by simp
  from a have "resolve_sfmc_token env body uid log1 =
               (Inl (ErrorResponse 400 ''No SFMC credentials provided or found in database.'' JUndefined),
                log1 @ [Call_getIntegrationTokens uid ''sfmc''])"
    by (simp add: resolve_sfmc_token_def)
  from prepare_sfmc_failed [OF assms h this]
  show "POST env body =
                (ErrorResponse 400 ''No SFMC credentials provided or found in database.'' JUndefined,
                 log1 @ [Call_getIntegrationTokens uid ''sfmc''])"
    by (rule POST_prepare_failed)
next
  show "distinct [''Missing HubSpot token. Please reconnect to HubSpot.'',
                   ''Database error retrieving HubSpot tokens.'',
                   ''Missing SFMC credentials. Please connect SFMC.'',
                   ''No SFMC credentials provided or found in database.'']"
    by simp
qed


text \<open>The four cases, with an empty store and with a store that throws.\<close>

theorem stored_credentials_errors_witness:
  "POST empty_store_env demo_body =
     (ErrorResponse 400 ''Missing HubSpot token. Please reconnect to HubSpot.'' JUndefined,
      [Call_getIntegrationTokens ''u1'' ''hubspot''])
   \<and> POST store_down_env demo_body =
     (ErrorResponse 500 ''Database error retrieving HubSpot tokens.'' JUndefined,
      [Call_getIntegrationTokens ''u1'' ''hubspot''])
   \<and> POST empty_store_env demo_token_body =
     (ErrorResponse 400 ''Missing SFMC credentials. Please connect SFMC.'' JUndefined,
      [Call_getIntegrationTokens ''u1'' ''sfmc''])
   \<and> POST store_down_env demo_token_body =
     (ErrorResponse 400 ''No SFMC credentials provided or found in database.'' JUndefined,
      [Call_getIntegrationTokens ''u1'' ''sfmc''])"
proof -
  define uid where "uid = ''u1''"
  define e where "e = JsError ''store unavailable'' JUndefined"
  have u: "userId demo_body = Some uid" "userId demo_token_body = Some uid" "uid \<noteq> []"
    by (simp_all add: uid_def demo_body_def demo_token_body_def)
  have n: "\<not> truthy_str (hubspotToken demo_body)" by (simp add: demo_body_def)
  have g1: "getIntegrationTokens empty_store_env [] uid ''hubspot'' = Inr None"
    by (simp add: empty_store_env_def demo_env_def)
  have g2: "getIntegrationTokens store_down_env [] uid ''hubspot'' = Inl e"
    by (simp add: store_down_env_def demo_env_def e_def)
  have h: "resolve_hubspot_token empty_store_env demo_token_body uid [] = (Inr ''inline-token'', [])"
    "resolve_hubspot_token store_down_env demo_token_body uid [] = (Inr ''inline-token'', [])"
    by (simp_all add: resolve_hubspot_token_def demo_token_body_def)
  have d: "direct_credentials (sfmcCredentials demo_token_body) = None"
    by (simp add: demo_token_body_def demo_body_def)
  have g3: "getIntegrationTokens empty_store_env [] uid ''sfmc'' = Inr None"
    by (simp add: empty_store_env_def demo_env_def)
  have g4: "getIntegrationTokens store_down_env [] uid ''sfmc'' = Inl e"
    by (simp add: store_down_env_def demo_env_def e_def)
  note t1 = stored_credentials_errors [OF u(1) u(3), where env = empty_store_env and e = e
      and tok = "''inline-token''" and ?log1.0 = "[]"]
  note t2 = stored_credentials_errors [OF u(1) u(3), where env = store_down_env and e = e
      and tok = "''inline-token''" and ?log1.0 = "[]"]
  note t3 = stored_credentials_errors [OF u(2) u(3), where env = empty_store_env and e = e
      and tok = "''inline-token''" and ?log1.0 = "[]"]
  note t4 = stored_credentials_errors [OF u(2) u(3), where env = store_down_env and e = e
      and tok = "''inline-token''" and ?log1.0 = "[]"]
  from t1 [THEN conjunct1] n g1
  have 1: "POST empty_store_env demo_body =
     (ErrorResponse 400 ''Missing HubSpot token. Please reconnect to HubSpot.'' JUndefined,
      [Call_getIntegrationTokens uid ''hubspot''])" by simp
  from t2 [THEN conjunct2, THEN conjunct1] n g2
  have 2: "POST store_down_env demo_body =
     (ErrorResponse 500 ''Database error retrieving HubSpot tokens.'' JUndefined,
      [Call_getIntegrationTokens uid ''hubspot''])" by simp
  from t3 [THEN conjunct2, THEN conjunct2, THEN conjunct1] h(1) d g3
  have 3: "POST empty_store_env demo_token_body =
     (ErrorResponse 400 ''Missing SFMC credentials. Please connect SFMC.'' JUndefined,
      [Call_getIntegrationTokens uid ''sfmc''])" by simp
  from t4 [THEN conjunct2, THEN conjunct2, THEN conjunct2, THEN conjunct1] h(2) d g4
  have 4: "POST store_down_env demo_token_body =
     (ErrorResponse 400 ''No SFMC credentials provided or found in database.'' JUndefined,
      [Call_getIntegrationTokens uid ''sfmc''])" by simp
  from 1 2 3 4 show ?thesis by (simp add: uid_def)
qed

subsection \<open>The calls of fetch mode\<close>

lemma axios_calls_projections:
  "convert_args (map (\<lambda>(url, extract). Call_axios_get url tok) xs) = []
   \<and> create_names (map (\<lambda>(url, extract). Call_axios_get url tok) xs) = []
   \<and> create_folders (map (\<lambda>(url, extract). Call_axios_get url tok) xs) = []"
  by (induction xs) (auto split: prod.splits)

lemma calls_to_projections:
  "convert_args (calls_to tok k) = [] \<and> create_names (calls_to tok k) = []
   \<and> create_folders (calls_to tok k) = []"
  unfolding calls_to_def by (rule axios_calls_projections)

lemma fetch_templates_calls:
  assumes "fetch_templates env tok log = (r, log')"
  shows "\<exists>mid. log' = log @ mid \<and> convert_args mid = [] \<and> create_names mid = []
           \<and> create_folders mid = []"
proof -
  from fetch_templates_chain [of env tok log] assms obtain k where
    "log' = log @ calls_to tok (Suc k)" by auto
  with calls_to_projections [of tok "Suc k"] show ?thesis by blast
qed

lemma slice0_length: "0 \<le> n \<Longrightarrow> length (slice0 xs n) \<le> nat n"
  by (simp add: slice0_def Let_def)


lemma slice_items_length:
  assumes "slice_items v n = Inr items" and "0 \<le> n"
  shows "length items \<le> nat n"
  using assms by (cases v) (auto simp: slice0_length)

lemma hubspot_step_bound:
  "\<exists>new. final_log (hubspot_step env opts fid t (rs, es, log)) = log @ new
         \<and> length (convert_args new) \<le> 1 \<and> length (create_names new) \<le> 1"
proof (cases "is_nullish t \<or> no_content t")
  case True
  then show ?thesis by (auto simp: hubspot_step_def no_content_def)
next
  case False
  obtain r log1 where cc: "convert_and_create env opts fid t (templateContent t) log = (r, log1)"
    by (cases "convert_and_create env opts fid t (templateContent t) log")
  from convert_and_create_calls [OF cc] obtain n1 where
    n1: "log1 = log @ n1" "convert_args n1 = [with_source t (templateContent t)]"
        "create_names n1 = [] \<or> create_names n1 = [get_prop t ''name'']"
    by blast
  have "final_log (hubspot_step env opts fid t (rs, es, log)) = log @ n1"
    using False cc n1(1) by (cases r) (simp_all add: hubspot_step_def no_content_def)
  moreover have "length (convert_args n1) \<le> 1" using n1(2) by simp
  moreover have "length (create_names n1) \<le> 1" using n1(3) by auto
  ultimately show ?thesis by blast
qed

lemma hubspot_loop_bound:
  "\<exists>new. final_log (hubspot_loop env opts fid ts (rs, es, log)) = log @ new
         \<and> length (convert_args new) \<le> length ts \<and> length (create_names new) \<le> length ts"
proof (induction ts arbitrary: rs es log)
  case Nil
  show ?case by simp
next
  case (Cons t ts)
  from hubspot_step_bound [of env opts fid t rs es log] obtain n1 where
    n1: "final_log (hubspot_step env opts fid t (rs, es, log)) = log @ n1"
        "length (convert_args n1) \<le> 1" "length (create_names n1) \<le> 1"
    by blast
  show ?case
  proof (cases "hubspot_step env opts fid t (rs, es, log)")
    case (Inl a)
    with n1 have "final_log (hubspot_loop env opts fid (t # ts) (rs, es, log)) = log @ n1"
      by (cases a) simp
    moreover have "length (convert_args n1) \<le> length (t # ts)" using n1(2) by simp
    moreover have "length (create_names n1) \<le> length (t # ts)" using n1(3) by simp
    ultimately show ?thesis by blast
  next
    case (Inr acc)
    obtain rs1 es1 log1 where acc: "acc = (rs1, es1, log1)" by (cases acc)
    with Inr n1 have l1: "log1 = log @ n1" by simp
    from Cons.IH [of rs1 es1 log1] obtain n2 where
      n2: "final_log (hubspot_loop env opts fid ts (rs1, es1, log1)) = log1 @ n2"
          "length (convert_args n2) \<le> length ts" "length (create_names n2) \<le> length ts"
      by blast
    have "final_log (hubspot_loop env opts fid (t # ts) (rs, es, log)) = log @ (n1 @ n2)"
      using Inr acc n2(1) l1 by simp
    moreover have "length (convert_args (n1 @ n2)) \<le> length (t # ts)"
      using n1(2) n2(2) by simp
    moreover have "length (create_names (n1 @ n2)) \<le> length (t # ts)"
      using n1(3) n2(3) by simp
    ultimately show ?thesis by blast
  qed
qed

lemma migrate_fetched_calls:
  assumes "migrate_fetched env opts fid lim fetched log = (r, log')"
  shows "\<exists>new. log' = log @ new \<and> (\<forall>c\<in>set new. is_item_call c)
           \<and> set (create_folders new) \<subseteq> {fid}
           \<and> (0 \<le> lim \<longrightarrow> length (convert_args new) \<le> nat lim
                            \<and> length (create_names new) \<le> nat lim)"
proof (cases "get_prop fetched ''length'' = JNum 0")
  case True
  with assms have "log' = log @ []" by (simp add: migrate_fetched_def)
  then show ?thesis by (intro exI [of _ "[]"]) simp
next
  case False
  show ?thesis
  proof (cases "slice_items fetched lim")
    case (Inl e)
    with assms False have "log' = log @ []" by (simp add: migrate_fetched_def)
    then show ?thesis by (intro exI [of _ "[]"]) simp
  next
    case (Inr items)
    from hubspot_loop_log [of env opts fid items "[]" "[]" log] obtain new where
      n: "final_log (hubspot_loop env opts fid items ([], [], log)) = log @ new"
         "\<forall>c\<in>set new. is_item_call c" "set (create_folders new) \<subseteq> {fid}"
      by blast
    from hubspot_loop_bound [of env opts fid items "[]" "[]" log] n(1)
    have b: "length (convert_args new) \<le> length items" "length (create_names new) \<le> length items"
      by auto
    have "log' = final_log (hubspot_loop env opts fid items ([], [], log))"
      using assms False Inr by (auto simp: migrate_fetched_def split: sum.splits prod.splits)
    with n(1) have l: "log' = log @ new" by simp
    have "0 \<le> lim \<longrightarrow> length (convert_args new) \<le> nat lim \<and> length (create_names new) \<le> nat lim"
      using slice_items_length [OF Inr] b by auto
    with l n(2,3) show ?thesis by blast
  qed
qed

lemma fetch_mode_calls:
  assumes "fetch_mode env opts fid lim tok log0 = (r, log)"
  shows "\<exists>mid new. log = log0 @ mid @ new
           \<and> convert_args mid = [] \<and> create_names mid = [] \<and> create_folders mid = []
           \<and> (\<forall>c\<in>set new. is_item_call c)
           \<and> set (create_folders new) \<subseteq> {fid}
           \<and> (0 \<le> lim \<longrightarrow> length (convert_args new) \<le> nat lim
                            \<and> length (create_names new) \<le> nat lim)"
proof (cases "createHubspotClient env log0 tok")
  case (Inl e)
  with assms have "log = log0 @ [Call_createHubspotClient tok] @ []"
    by (simp add: fetch_mode_def)
  then show ?thesis
    by (intro exI [of _ "[Call_createHubspotClient tok]"] exI [of _ "[]"]) simp
next
  case (Inr u)
  obtain fr l1 where f: "fetch_templates env tok (log0 @ [Call_createHubspotClient tok]) = (fr, l1)"
    by (cases "fetch_templates env tok (log0 @ [Call_createHubspotClient tok])")
  from fetch_templates_calls [OF f] obtain m where
    m: "l1 = (log0 @ [Call_createHubspotClient tok]) @ m" "convert_args m = []"
       "create_names m = []" "create_folders m = []"
    by blast
  show ?thesis
  proof (cases fr)
    case (Inl e)
    with assms Inr f m(1) have "log = log0 @ (Call_createHubspotClient tok # m) @ []"
      by (simp add: fetch_mode_def)
    with m(2,3,4) show ?thesis
      by (intro exI [of _ "Call_createHubspotClient tok # m"] exI [of _ "[]"]) simp
  next
    case fr: (Inr fetched)
    with assms Inr f have "migrate_fetched env opts fid lim fetched l1 = (r, log)"
      by (simp add: fetch_mode_def)
    from migrate_fetched_calls [OF this] obtain new where
      n: "log = l1 @ new" "\<forall>c\<in>set new. is_item_call c" "set (create_folders new) \<subseteq> {fid}"
         "0 \<le> lim \<longrightarrow> length (convert_args new) \<le> nat lim \<and> length (create_names new) \<le> nat lim"
      by blast
    from n(1) m(1) have "log = log0 @ (Call_createHubspotClient tok # m) @ new" by simp
    with m(2,3,4) n(2,3,4) show ?thesis
      by (intro exI [of _ "Call_createHubspotClient tok # m"] exI [of _ new]) simp
  qed
qed

lemma migrate_calls:
  assumes "migrate env body tok opts fid log0 = (r, log)"
  shows "\<exists>mid new. log = log0 @ mid @ new
           \<and> convert_args mid = [] \<and> create_names mid = [] \<and> create_folders mid = []
           \<and> (\<forall>c\<in>set new. is_item_call c)
           \<and> set (create_folders new) \<subseteq> {fid}
           \<and> (custom_items (customTemplates body) = None \<and> 0 \<le> limit_or_default body
                \<longrightarrow> length (convert_args new) \<le> nat (limit_or_default body)
                  \<and> length (create_names new) \<le> nat (limit_or_default body))"
proof (cases "custom_items (customTemplates body)")
  case None
  with assms have "fetch_mode env opts fid (limit_or_default body) tok log0 = (r, log)"
    by (simp add: migrate_def)
  from fetch_mode_calls [OF this] None show ?thesis by simp
next
  case (Some ts)
  with assms have "custom_mode env opts fid ts log0 = (r, log)" by (simp add: migrate_def)
  from custom_mode_calls [OF this] obtain new where
    "log = log0 @ [] @ new" "\<forall>c\<in>set new. is_item_call c" "set (create_folders new) \<subseteq> {fid}"
    by auto
  with Some show ?thesis by (intro exI [of _ "[]"] exI [of _ new]) simp
qed


lemma POST_prepared:
  "prepare env body = (Inr (tok, opts, fid), log0) \<Longrightarrow>
     POST env body = migrate env body tok opts fid log0"
  by (simp add: POST_def)

lemma POST_calls:
  assumes "prepare env body = (Inr (tok, opts, fid), log0)"
  shows "\<exists>before after. snd (POST env body) = before @ after
           \<and> convert_args before = [] \<and> create_names before = [] \<and> create_folders before = []
           \<and> (\<forall>c\<in>set after. is_item_call c)
           \<and> set (create_folders after) \<subseteq> {fid}
           \<and> (custom_items (customTemplates body) = None \<and> 0 \<le> limit_or_default body
                \<longrightarrow> length (convert_args after) \<le> nat (limit_or_default body)
                  \<and> length (create_names after) \<le> nat (limit_or_default body))"
proof -
  obtain r log where m: "migrate env body tok opts fid log0 = (r, log)"
    by (cases "migrate env body tok opts fid log0")
  from migrate_calls [OF m] obtain mid new where
    c: "log = log0 @ mid @ new" "convert_args mid = []" "create_names mid = []"
       "create_folders mid = []" "\<forall>c\<in>set new. is_item_call c" "set (create_folders new) \<subseteq> {fid}"
       "custom_items (customTemplates body) = None \<and> 0 \<le> limit_or_default body
          \<longrightarrow> length (convert_args new) \<le> nat (limit_or_default body)
            \<and> length (create_names new) \<le> nat (limit_or_default body)"
    by blast
  from prepare_calls [OF assms] have s: "convert_args log0 = []" "create_names log0 = []"
    "create_folders log0 = []"
    by (simp_all add: setup_calls_projections)
  have "snd (POST env body) = (log0 @ mid) @ new"
    using POST_prepared [OF assms] m c(1) by simp
  moreover have "convert_args (log0 @ mid) = []" "create_names (log0 @ mid) = []"
    "create_folders (log0 @ mid) = []"
    using s c(2,3,4) by simp_all
  ultimately show ?thesis using c(5,6,7) by blast
qed

subsection \<open>C6: the destination folder\<close>

lemma prepare_folder:
  assumes "userId body = Some uid" and "uid \<noteq> []"
    and "resolve_hubspot_token env body uid [] = (Inr tok, log1)"
    and "resolve_sfmc_token env body uid log1 = (Inr stok, log2)"
    and "resolve_folder env body (sfmc_opts body stok) log2 = (r, log3)"
  shows "prepare env body =
           (case r of Inl resp \<Rightarrow> Inl resp | Inr fid \<Rightarrow> Inr (tok, sfmc_opts body stok, fid), log3)"
  using assms by (cases r) (simp_all add: prepare_def)

lemma resolve_folder_lookup:
  "\<not> truthy_str (folderId body) \<Longrightarrow>
     resolve_folder env body opts log = find_or_create_folder env opts log"
  by (cases "folderId body") (simp_all add: resolve_folder_def)

text \<open>
  Claim C6. When no \<^verbatim>\<open>folderId\<close> is supplied (and both tokens are resolved), the
  handler lists the folders of SFMC and takes the one named exactly
  \<^verbatim>\<open>Content Builder\<close>; when there is none the run ends with an HTTP 400 response. It
  then takes the folder named exactly \<^verbatim>\<open>HubSpot Templates\<close> whose \<^verbatim>\<open>parentId\<close> is
  the root's id, without creating anything, or else creates one of that name under the
  root and takes its id. Every \<^verbatim>\<open>createEmailTemplate\<close> call of the run is made with
  the folder id so resolved.
\<close>

theorem folder_resolution:
  assumes "\<not> truthy_str (folderId body)"
    and "userId body = Some uid" and "uid \<noteq> []"
    and "resolve_hubspot_token env body uid [] = (Inr tok, log1)"
    and "resolve_sfmc_token env body uid log1 = (Inr stok, log2)"
    and "opts = sfmc_opts body stok"
    and "getSFMCFolders env log2 opts = Inr items"
  shows "(find (\<lambda>folder. folder_name folder = ''Content Builder'') items = None
          \<longrightarrow> POST env body =
                (ErrorResponse 400
                   ''Failed to find or create a folder in SFMC. Please provide a valid folderId.''
                   JUndefined,
                 log2 @ [Call_getSFMCFolders opts]))
       \<and> (\<forall>root. find (\<lambda>folder. folder_name folder = ''Content Builder'') items = Some root
            \<longrightarrow> (\<forall>child.
                    find (\<lambda>folder. folder_name folder = ''HubSpot Templates''
                                   \<and> parentId folder = Some (folder_id root)) items = Some child
                    \<longrightarrow> prepare env body =
                          (Inr (tok, opts, folder_id child), log2 @ [Call_getSFMCFolders opts]))
              \<and> (find (\<lambda>folder. folder_name folder = ''HubSpot Templates''
                                   \<and> parentId folder = Some (folder_id root)) items = None
                    \<longrightarrow> (\<forall>newFolder.
                            createSFMCFolder env (log2 @ [Call_getSFMCFolders opts]) opts
                              ''HubSpot Templates'' (folder_id root) = Inr newFolder
                            \<longrightarrow> prepare env body =
                                  (Inr (tok, opts, folder_id newFolder),
                                   log2 @ [Call_getSFMCFolders opts,
                                           Call_createSFMCFolder opts ''HubSpot Templates''
                                             (folder_id root)]))))
       \<and> (\<forall>fid log0. prepare env body = (Inr (tok, opts, fid), log0)
            \<longrightarrow> set (create_folders (snd (POST env body))) \<subseteq> {fid})"
proof (intro conjI allI impI)
  assume "find (\<lambda>folder. folder_name folder = ''Content Builder'') items = None"
  with assms(1,6,7) have "resolve_folder env body (sfmc_opts body stok) log2 =
      (Inl folder_failed, log2 @ [Call_getSFMCFolders opts])"
    by (simp add: resolve_folder_lookup find_or_create_folder_def)
  from prepare_folder [OF assms(2,3,4,5) this]
  have "prepare env body = (Inl folder_failed, log2 @ [Call_getSFMCFolders opts])" by simp
  from POST_prepare_failed [OF this]
  show "POST env body =
                (ErrorResponse 400
                   ''Failed to find or create a folder in SFMC. Please provide a valid folderId.''
                   JUndefined,
                 log2 @ [Call_getSFMCFolders opts])"
    by (simp add: folder_failed_def)
next
  fix root child
  assume "find (\<lambda>folder. folder_name folder = ''Content Builder'') items = Some root"
    and "find (\<lambda>folder. folder_name folder = ''HubSpot Templates''
                                   \<and> parentId folder = Some (folder_id root)) items = Some child"
  with assms(1,6,7) have "resolve_folder env body (sfmc_opts body stok) log2 =
      (Inr (folder_id child), log2 @ [Call_getSFMCFolders opts])"
    by (simp add: resolve_folder_lookup find_or_create_folder_def)
  from prepare_folder [OF assms(2,3,4,5) this] assms(6)
  show "prepare env body = (Inr (tok, opts, folder_id child), log2 @ [Call_getSFMCFolders opts])"
    by simp
next
  fix root newFolder
  assume "find (\<lambda>folder. folder_name folder = ''Content Builder'') items = Some root"
    and "find (\<lambda>folder. folder_name folder = ''HubSpot Templates''
                                   \<and> parentId folder = Some (folder_id root)) items = None"
    and "createSFMCFolder env (log2 @ [Call_getSFMCFolders opts]) opts
                              ''HubSpot Templates'' (folder_id root) = Inr newFolder"
  with assms(1,6,7) have "resolve_folder env body (sfmc_opts body stok) log2 =
      (Inr (folder_id newFolder),
       log2 @ [Call_getSFMCFolders opts,
               Call_createSFMCFolder opts ''HubSpot Templates'' (folder_id root)])"
    by (simp add: resolve_folder_lookup find_or_create_folder_def)
  from prepare_folder [OF assms(2,3,4,5) this] assms(6)
  show "prepare env body =
          (Inr (tok, opts, folder_id newFolder),
           log2 @ [Call_getSFMCFolders opts,
                   Call_createSFMCFolder opts ''HubSpot Templates'' (folder_id root)])"
    by simp
next
  fix fid log0
  assume "prepare env body = (Inr (tok, opts, fid), log0)"
  from POST_calls [OF this] obtain before after where
    "snd (POST env body) = before @ after" "create_folders before = []"
    "set (create_folders after) \<subseteq> {fid}"
    by blast
  then show "set (create_folders (snd (POST env body))) \<subseteq> {fid}" by simp
qed


text \<open>
  The three cases in the examples: the folder is created under the root (and the one
  template created goes into it), an existing folder is reused, and there is no root.
\<close>

lemma demo_tokens:
  "resolve_hubspot_token demo_env demo_body ''u1'' []
     = (Inr ''hubspot-token'', [Call_getIntegrationTokens ''u1'' ''hubspot''])"
  "resolve_sfmc_token demo_env demo_body ''u1'' [Call_getIntegrationTokens ''u1'' ''hubspot'']
     = (Inr ''sfmc-token'',
        [Call_getIntegrationTokens ''u1'' ''hubspot'', Call_getIntegrationTokens ''u1'' ''sfmc''])"
  by code_simp+

lemma demo_created_in: "create_folders (snd (POST demo_env demo_body)) = [NumId 7]"
  by code_simp

lemma existing_folder_tokens:
  "resolve_hubspot_token existing_folder_env demo_body ''u1'' []
     = (Inr ''hubspot-token'', [Call_getIntegrationTokens ''u1'' ''hubspot''])"
  "resolve_sfmc_token existing_folder_env demo_body ''u1''
       [Call_getIntegrationTokens ''u1'' ''hubspot'']
     = (Inr ''sfmc-token'',
        [Call_getIntegrationTokens ''u1'' ''hubspot'', Call_getIntegrationTokens ''u1'' ''sfmc''])"
  by code_simp+

lemma no_root_tokens:
  "resolve_hubspot_token no_root_env demo_body ''u1'' []
     = (Inr ''hubspot-token'', [Call_getIntegrationTokens ''u1'' ''hubspot''])"
  "resolve_sfmc_token no_root_env demo_body ''u1'' [Call_getIntegrationTokens ''u1'' ''hubspot'']
     = (Inr ''sfmc-token'',
        [Call_getIntegrationTokens ''u1'' ''hubspot'', Call_getIntegrationTokens ''u1'' ''sfmc''])"
  by code_simp+

theorem folder_resolution_witness:
  "prepare demo_env demo_body = (Inr (''hubspot-token'', demo_opts, NumId 7), demo_setup_calls)
   \<and> create_folders (snd (POST demo_env demo_body)) = [NumId 7]
   \<and> prepare existing_folder_env demo_body
       = (Inr (''hubspot-token'', demo_opts, NumId 9),
          [Call_getIntegrationTokens ''u1'' ''hubspot'', Call_getIntegrationTokens ''u1'' ''sfmc'',
           Call_getSFMCFolders demo_opts])
   \<and> POST no_root_env demo_body
       = (ErrorResponse 400
            ''Failed to find or create a folder in SFMC. Please provide a valid folderId.''
            JUndefined,
          [Call_getIntegrationTokens ''u1'' ''hubspot'', Call_getIntegrationTokens ''u1'' ''sfmc'',
           Call_getSFMCFolders demo_opts])"
proof -
  define uid where "uid = ''u1''"
  define tok where "tok = ''hubspot-token''"
  define stok where "stok = ''sfmc-token''"
  define log1 where "log1 = [Call_getIntegrationTokens uid ''hubspot'']"
  define log2 where "log2 = [Call_getIntegrationTokens uid ''hubspot'',
                             Call_getIntegrationTokens uid ''sfmc'']"
  have a1: "\<not> truthy_str (folderId demo_body)" by (simp add: demo_body_def)
  have a2: "userId demo_body = Some uid" by (simp add: demo_body_def uid_def)
  have a3: "uid \<noteq> []" by (simp add: uid_def)
  have a4: "resolve_hubspot_token demo_env demo_body uid [] = (Inr tok, log1)"
    unfolding uid_def tok_def log1_def by (rule demo_tokens(1))
  have a5: "resolve_sfmc_token demo_env demo_body uid log1 = (Inr stok, log2)"
    unfolding uid_def stok_def log1_def log2_def by (rule demo_tokens(2))
  have a6: "demo_opts = sfmc_opts demo_body stok" by (simp add: demo_opts_def stok_def)
  have b4: "resolve_hubspot_token existing_folder_env demo_body uid [] = (Inr tok, log1)"
    "resolve_hubspot_token no_root_env demo_body uid [] = (Inr tok, log1)"
    unfolding uid_def tok_def log1_def
    by (rule existing_folder_tokens(1), rule no_root_tokens(1))
  have b5: "resolve_sfmc_token existing_folder_env demo_body uid log1 = (Inr stok, log2)"
    "resolve_sfmc_token no_root_env demo_body uid log1 = (Inr stok, log2)"
    unfolding uid_def stok_def log1_def log2_def
    by (rule existing_folder_tokens(2), rule no_root_tokens(2))
  have f1: "getSFMCFolders demo_env log2 demo_opts = Inr [demo_root]"
    by (simp add: demo_env_def)
  have f2: "getSFMCFolders existing_folder_env log2 demo_opts = Inr [demo_child, demo_root, demo_child]"
    by (simp add: existing_folder_env_def)
  have f3: "getSFMCFolders no_root_env log2 demo_opts = Inr [demo_child]"
    by (simp add: no_root_env_def)
  have r1: "find (\<lambda>folder. folder_name folder = ''Content Builder'') [demo_root] = Some demo_root"
    by (simp add: demo_root_def)
  have r2: "find (\<lambda>folder. folder_name folder = ''Content Builder'')
              [demo_child, demo_root, demo_child] = Some demo_root"
    by (simp add: demo_root_def demo_child_def)
  have r3: "find (\<lambda>folder. folder_name folder = ''Content Builder'') [demo_child] = None"
    by (simp add: demo_child_def)
  have c1: "find (\<lambda>folder. folder_name folder = ''HubSpot Templates''
                   \<and> parentId folder = Some (folder_id demo_root)) [demo_root] = None"
    by (simp add: demo_root_def)
  have c2: "find (\<lambda>folder. folder_name folder = ''HubSpot Templates''
                   \<and> parentId folder = Some (folder_id demo_root))
              [demo_child, demo_root, demo_child] = Some demo_child"
    by (simp add: demo_root_def demo_child_def)
  have n1: "createSFMCFolder demo_env (log2 @ [Call_getSFMCFolders demo_opts]) demo_opts
              ''HubSpot Templates'' (folder_id demo_root)
            = Inr \<lparr> folder_id = NumId 7, folder_name = ''HubSpot Templates'',
                    parentId = Some (folder_id demo_root) \<rparr>"
    by (simp add: demo_env_def)
  note t1 = folder_resolution [OF a1 a2 a3 a4 a5 a6 f1]
  note t2 = folder_resolution [OF a1 a2 a3 b4(1) b5(1) a6 f2]
  note t3 = folder_resolution [OF a1 a2 a3 b4(2) b5(2) a6 f3]
  from t1 [THEN conjunct2, THEN conjunct1, THEN spec, THEN mp, OF r1, THEN conjunct2, THEN mp,
           OF c1, THEN spec, THEN mp, OF n1]
  have p1: "prepare demo_env demo_body =
              (Inr (tok, demo_opts, NumId 7),
               log2 @ [Call_getSFMCFolders demo_opts,
                       Call_createSFMCFolder demo_opts ''HubSpot Templates'' (folder_id demo_root)])"
    by simp
  from t1 [THEN conjunct2, THEN conjunct2, THEN spec, THEN spec, THEN mp, OF p1]
  have p2: "set (create_folders (snd (POST demo_env demo_body))) \<subseteq> {NumId 7}" .
  from t2 [THEN conjunct2, THEN conjunct1, THEN spec, THEN mp, OF r2, THEN conjunct1, THEN spec,
           THEN mp, OF c2]
  have p3: "prepare existing_folder_env demo_body =
              (Inr (tok, demo_opts, folder_id demo_child), log2 @ [Call_getSFMCFolders demo_opts])" .
  from t3 [THEN conjunct1, THEN mp, OF r3]
  have p4: "POST no_root_env demo_body =
              (ErrorResponse 400
                 ''Failed to find or create a folder in SFMC. Please provide a valid folderId.''
                 JUndefined,
               log2 @ [Call_getSFMCFolders demo_opts])" .
  from p1 p3 p4 demo_created_in show ?thesis
    by (simp add: tok_def log2_def uid_def demo_setup_calls_def demo_root_def demo_child_def)
qed


subsection \<open>C8: the limit of fetch mode\<close>






end
